theory Spec2Isabelle
  imports Complex_Main "HOL-Library.Sublist"
begin

section \<open>Python and numpy primitives used by the controller\<close>

text \<open>
  Numbers are modelled as mathematical reals: the cost and the constraints are symbolic
  (sympy) expressions, and the claims about them are algebraic identities. Rounding of
  float64 is not modelled, and neither are the float values inf and nan (in particular
  the default \<open>target_speed = float("inf")\<close> is outside the model; \<open>target_speed\<close> is
  a real here).
\<close>

datatype error = IndexError | KeyError | ValueError | TypeError | LinAlgError | SolverRaised

definition bind_err :: "error + 'a \<Rightarrow> ('a \<Rightarrow> error + 'b) \<Rightarrow> error + 'b" where
  "bind_err m f = (case m of Inl e \<Rightarrow> Inl e | Inr v \<Rightarrow> f v)"

fun foldM_err :: "('a \<Rightarrow> 's \<Rightarrow> error + 's) \<Rightarrow> 'a list \<Rightarrow> 's \<Rightarrow> error + 's" where
  "foldM_err f [] s = Inr s"
| "foldM_err f (x # xs) s = (case f x s of Inl e \<Rightarrow> Inl e | Inr s' \<Rightarrow> foldM_err f xs s')"

definition py_index :: "'a list \<Rightarrow> int \<Rightarrow> error + 'a" where
  \<comment> \<open>\<open>xs[i]\<close> as Python reads it: \<open>i\<close> from the front when it is not negative,
      \<open>len(xs) + i\<close> when it is; IndexError outside \<open>-len(xs) .. len(xs) - 1\<close>.\<close>
  "py_index xs i =
     (if 0 \<le> i \<and> i < int (length xs) then Inr (xs ! nat i)
      else if i < 0 \<and> - int (length xs) \<le> i then Inr (xs ! nat (int (length xs) + i))
      else Inl IndexError)"

definition py_or0 :: "real option \<Rightarrow> real" where
  \<comment> \<open>\<open>a or 0\<close>: None and 0.0 are both falsy.\<close>
  "py_or0 a = (case a of None \<Rightarrow> 0 | Some r \<Rightarrow> if r = 0 then 0 else r)"

definition linspace :: "real \<Rightarrow> real \<Rightarrow> nat \<Rightarrow> real list" where
  \<comment> \<open>\<open>np.linspace(start, stop, num)\<close> with the endpoint included.\<close>
  "linspace start stop num =
     (if num = 1 then [start]
      else map (\<lambda>i. start + real i * ((stop - start) / real (num - 1))) [0..<num])"

definition polyval :: "real list \<Rightarrow> real \<Rightarrow> real" where
  \<comment> \<open>\<open>np.polyval(p, x)\<close>: Horner's scheme, highest-degree coefficient first.\<close>
  "polyval p x = foldl (\<lambda>y pv. y * x + pv) 0 p"

definition slice_bounds :: "nat \<Rightarrow> nat \<Rightarrow> nat \<Rightarrow> nat \<times> nat" where
  \<comment> \<open>The part of \<open>[lo:hi]\<close> that lies inside an array of length \<open>n\<close>.\<close>
  "slice_bounds n lo hi = (min lo n, max (min lo n) (min hi n))"

definition fill_slice :: "real list \<Rightarrow> nat \<Rightarrow> nat \<Rightarrow> real \<Rightarrow> real list" where
  \<comment> \<open>\<open>buf[lo:hi] = c\<close> for a scalar \<open>c\<close>: broadcast over the slice.\<close>
  "fill_slice buf lo hi c =
     (case slice_bounds (length buf) lo hi of
        (l, h) \<Rightarrow> take l buf @ replicate (h - l) c @ drop h buf)"

definition assign_slice :: "real list \<Rightarrow> nat \<Rightarrow> nat \<Rightarrow> real list \<Rightarrow> error + real list" where
  \<comment> \<open>\<open>buf[lo:hi] = vals\<close> for an array: same length, or length one (broadcast),
      anything else raises ValueError.\<close>
  "assign_slice buf lo hi vals =
     (case slice_bounds (length buf) lo hi of
        (l, h) \<Rightarrow>
          if length vals = h - l then Inr (take l buf @ vals @ drop h buf)
          else if length vals = 1 then Inr (take l buf @ replicate (h - l) (hd vals) @ drop h buf)
          else Inl ValueError)"

section \<open>Symbols and symbolic expressions\<close>

text \<open>
  The eight time series of the horizon, in the order of \<open>vars_\<close>: x, y, \<open>\<psi>\<close>, v, cte,
  \<open>e\<psi>\<close>, and the actuators a and \<open>\<delta>\<close>. A symbol is an indexed series symbol
  (\<open>x0, x1, ...\<close>), an initial-state symbol (\<open>x_init, ...\<close>) or a polynomial coefficient
  (\<open>poly0, ...\<close>).
\<close>

datatype series = Ser_x | Ser_y | Ser_psi | Ser_v | Ser_cte | Ser_epsi | Ser_a | Ser_delta

datatype symbol = Var series nat | Init series | Poly nat

datatype expr =
    Num real
  | Sym symbol
  | Add expr expr
  | Sub expr expr
  | Mul expr expr
  | Div expr expr
  | Pow expr nat
  | Sin expr
  | Cos expr

fun eval :: "(symbol \<Rightarrow> real) \<Rightarrow> expr \<Rightarrow> real" where
  "eval \<rho> (Num c) = c"
| "eval \<rho> (Sym s) = \<rho> s"
| "eval \<rho> (Add a b) = eval \<rho> a + eval \<rho> b"
| "eval \<rho> (Sub a b) = eval \<rho> a - eval \<rho> b"
| "eval \<rho> (Mul a b) = eval \<rho> a * eval \<rho> b"
| "eval \<rho> (Div a b) = eval \<rho> a / eval \<rho> b"
| "eval \<rho> (Pow a n) = eval \<rho> a ^ n"
| "eval \<rho> (Sin a) = sin (eval \<rho> a)"
| "eval \<rho> (Cos a) = cos (eval \<rho> a)"

definition create_array_of_symbols :: "series \<Rightarrow> nat \<Rightarrow> expr list" where
  \<comment> \<open>\<open>sym.symbols('{symbol}0:{N}')\<close>: the symbols \<open>s0, ..., s(N-1)\<close>.\<close>
  "create_array_of_symbols s N = map (\<lambda>i. Sym (Var s i)) [0..<N]"

definition create_poly_symbols :: "nat \<Rightarrow> expr list" where
  \<comment> \<open>\<open>create_array_of_symbols('poly', n)\<close>.\<close>
  "create_poly_symbols n = map (\<lambda>i. Sym (Poly i)) [0..<n]"

definition vars :: "nat \<Rightarrow> symbol list" where
  \<comment> \<open>\<open>(*x, *y, *\<psi>, *v, *cte, *e\<psi>, *a, *\<delta>)\<close>.\<close>
  "vars N =
     concat (map (\<lambda>s. map (Var s) [0..<N])
       [Ser_x, Ser_y, Ser_psi, Ser_v, Ser_cte, Ser_epsi, Ser_a, Ser_delta])"

definition init_syms :: "symbol list" where
  \<comment> \<open>\<open>init = (x_init, y_init, \<psi>_init, v_init, cte_init, e\<psi>_init)\<close>.\<close>
  "init_syms = [Init Ser_x, Init Ser_y, Init Ser_psi, Init Ser_v, Init Ser_cte, Init Ser_epsi]"

definition poly_syms :: "nat \<Rightarrow> symbol list" where
  "poly_syms n = map Poly [0..<n]"

type_synonym num_fun = "real list \<Rightarrow> real list \<Rightarrow> error + real"

definition bind_args :: "symbol list \<Rightarrow> real list \<Rightarrow> symbol \<Rightarrow> real" where
  \<comment> \<open>Positional binding of argument symbols to values. The expressions built below
      mention argument symbols only, so the default is never read.\<close>
  "bind_args syms vals s = (case map_of (zip syms vals) s of Some r \<Rightarrow> r | None \<Rightarrow> 0)"

definition lambdify :: "symbol list \<Rightarrow> symbol list \<Rightarrow> expr \<Rightarrow> num_fun" where
  \<comment> \<open>\<open>sym.lambdify((vars_, *args), e)\<close>: a function \<open>f(z, *as)\<close>. The first
      argument is unpacked into \<open>vars_\<close> (a length mismatch raises ValueError), the others
      are positional (a wrong count raises TypeError).\<close>
  "lambdify vs args e z as =
     (if length as \<noteq> length args then Inl TypeError
      else if length z \<noteq> length vs then Inl ValueError
      else Inr (eval (bind_args (vs @ args) (z @ as)) e))"

definition generate_fun :: "expr \<Rightarrow> symbol list \<Rightarrow> symbol list \<Rightarrow> symbol list \<Rightarrow> num_fun" where
  "generate_fun symb_fun vs init poly = lambdify vs (init @ poly) symb_fun"

section \<open>The controller\<close>

record config =
  target_speed :: real
  steps_ahead :: nat
  dt :: real
  cte_coeff :: real
  epsi_coeff :: real
  speed_coeff :: real
  acc_coeff :: real
  steer_coeff :: real
  consec_acc_coeff :: real
  consec_steer_coeff :: real
  Lf :: real
  poly_degree :: nat

definition state_vars :: "series list" where
  \<comment> \<open>\<open>self.state_vars = ('x', 'y', 'v', '\<psi>', 'cte', 'e\<psi>')\<close>.\<close>
  "state_vars = [Ser_x, Ser_y, Ser_v, Ser_psi, Ser_cte, Ser_epsi]"

subsection \<open>Cost\<close>

definition stage_cost :: "config \<Rightarrow> nat \<Rightarrow> expr" where
  \<comment> \<open>The summand of the first loop, for one \<open>t\<close>.\<close>
  "stage_cost c t =
     (let N = steps_ahead c;
          v = create_array_of_symbols Ser_v N;
          cte = create_array_of_symbols Ser_cte N;
          epsi = create_array_of_symbols Ser_epsi N;
          a = create_array_of_symbols Ser_a N;
          delta = create_array_of_symbols Ser_delta N
      in Add (Add (Add (Add
           (Mul (Num (cte_coeff c)) (Pow (cte ! t) 2))
           (Mul (Num (epsi_coeff c)) (Pow (epsi ! t) 2)))
           (Mul (Num (speed_coeff c)) (Pow (Sub (v ! t) (Num (target_speed c))) 2)))
           (Mul (Num (acc_coeff c)) (Pow (a ! t) 2)))
           (Mul (Num (steer_coeff c)) (Pow (delta ! t) 2)))"

definition consec_cost :: "config \<Rightarrow> nat \<Rightarrow> expr" where
  \<comment> \<open>The summand of the second loop: differences of consecutive actuators.\<close>
  "consec_cost c t =
     (let N = steps_ahead c;
          a = create_array_of_symbols Ser_a N;
          delta = create_array_of_symbols Ser_delta N
      in Add
           (Mul (Num (consec_acc_coeff c)) (Pow (Sub (a ! (t + 1)) (a ! t)) 2))
           (Mul (Num (consec_steer_coeff c)) (Pow (Sub (delta ! (t + 1)) (delta ! t)) 2)))"

definition cost_expr :: "config \<Rightarrow> expr" where
  \<comment> \<open>\<open>cost = 0\<close>, then \<open>cost += ...\<close> for \<open>t in range(N)\<close>, then for
      \<open>t in range(N - 1)\<close>. Every index read is below \<open>N\<close>.\<close>
  "cost_expr c =
     (let N = steps_ahead c;
          cost1 = foldl (\<lambda>cost t. Add cost (stage_cost c t)) (Num 0) [0..<N]
      in foldl (\<lambda>cost t. Add cost (consec_cost c t)) cost1 [0..<N - 1])"

subsection \<open>Equality constraints\<close>

type_synonym eq_dict = "series \<rightharpoonup> expr option list"

definition EqualityConstraints :: "nat \<Rightarrow> series list \<Rightarrow> eq_dict" where
  \<comment> \<open>\<open>_EqualityConstraints(N, state_vars)\<close>: each symbol maps to \<open>N*[None]\<close>.\<close>
  "EqualityConstraints N svars = foldl (\<lambda>d s. d(s \<mapsto> replicate N None)) Map.empty svars"

definition set_constr :: "series \<Rightarrow> nat \<Rightarrow> expr \<Rightarrow> eq_dict \<Rightarrow> error + eq_dict" where
  \<comment> \<open>\<open>eq_constr[key][t] = e\<close>.\<close>
  "set_constr key t e d =
     (case d key of
        None \<Rightarrow> Inl KeyError
      | Some l \<Rightarrow> if t < length l then Inr (d(key \<mapsto> l[t := Some e])) else Inl IndexError)"

definition curve_expr :: "expr list \<Rightarrow> expr \<Rightarrow> expr" where
  \<comment> \<open>\<open>sum(poly[-(i+1)] * x**i for i in range(len(poly)))\<close>; Python's \<open>sum\<close> starts
      from 0.\<close>
  "curve_expr poly x =
     foldl Add (Num 0)
       (map (\<lambda>i. Mul (poly ! (length poly - (i + 1))) (Pow x i)) [0..<length poly])"

definition psides_expr :: "expr list \<Rightarrow> expr \<Rightarrow> expr" where
  \<comment> \<open>\<open>sum(poly[-(i+1)] * i*x**(i-1) for i in range(1, len(poly)))\<close>.\<close>
  "psides_expr poly x =
     foldl Add (Num 0)
       (map (\<lambda>i. Mul (Mul (poly ! (length poly - (i + 1))) (Num (real i))) (Pow x (i - 1)))
            [1..<length poly])"

definition pin_constr :: "config \<Rightarrow> eq_dict \<Rightarrow> error + eq_dict" where
  \<comment> \<open>The six assignments at index 0. On an empty horizon \<open>x[0]\<close> raises IndexError.\<close>
  "pin_constr c d =
     (let N = steps_ahead c;
          x = create_array_of_symbols Ser_x N;
          y = create_array_of_symbols Ser_y N;
          psi = create_array_of_symbols Ser_psi N;
          v = create_array_of_symbols Ser_v N;
          cte = create_array_of_symbols Ser_cte N;
          epsi = create_array_of_symbols Ser_epsi N
      in if N = 0 then Inl IndexError
         else
           bind_err (set_constr Ser_x 0 (Sub (x ! 0) (Sym (Init Ser_x))) d) (\<lambda>d.
           bind_err (set_constr Ser_y 0 (Sub (y ! 0) (Sym (Init Ser_y))) d) (\<lambda>d.
           bind_err (set_constr Ser_psi 0 (Sub (psi ! 0) (Sym (Init Ser_psi))) d) (\<lambda>d.
           bind_err (set_constr Ser_v 0 (Sub (v ! 0) (Sym (Init Ser_v))) d) (\<lambda>d.
           bind_err (set_constr Ser_cte 0 (Sub (cte ! 0) (Sym (Init Ser_cte))) d) (\<lambda>d.
           set_constr Ser_epsi 0 (Sub (epsi ! 0) (Sym (Init Ser_epsi))) d))))))"

definition step_constr :: "config \<Rightarrow> nat \<Rightarrow> eq_dict \<Rightarrow> error + eq_dict" where
  \<comment> \<open>The body of the loop \<open>for t in range(1, N)\<close>; there \<open>1 \<le> t < N\<close>, so the reads
      at \<open>t\<close> and \<open>t - 1\<close> are in range.\<close>
  "step_constr c t d =
     (let N = steps_ahead c;
          poly = create_poly_symbols (poly_degree c + 1);
          x = create_array_of_symbols Ser_x N;
          y = create_array_of_symbols Ser_y N;
          psi = create_array_of_symbols Ser_psi N;
          v = create_array_of_symbols Ser_v N;
          cte = create_array_of_symbols Ser_cte N;
          epsi = create_array_of_symbols Ser_epsi N;
          a = create_array_of_symbols Ser_a N;
          delta = create_array_of_symbols Ser_delta N;
          curve = curve_expr poly (x ! (t - 1));
          psides = psides_expr poly (x ! (t - 1))
      in
        bind_err (set_constr Ser_x t
          (Sub (x ! t) (Add (x ! (t - 1))
             (Mul (Mul (v ! (t - 1)) (Cos (psi ! (t - 1)))) (Num (dt c))))) d) (\<lambda>d.
        bind_err (set_constr Ser_y t
          (Sub (y ! t) (Add (y ! (t - 1))
             (Mul (Mul (v ! (t - 1)) (Sin (psi ! (t - 1)))) (Num (dt c))))) d) (\<lambda>d.
        bind_err (set_constr Ser_psi t
          (Sub (psi ! t) (Sub (psi ! (t - 1))
             (Mul (Div (Mul (v ! (t - 1)) (delta ! (t - 1))) (Num (Lf c))) (Num (dt c))))) d) (\<lambda>d.
        bind_err (set_constr Ser_v t
          (Sub (v ! t) (Add (v ! (t - 1)) (Mul (a ! (t - 1)) (Num (dt c))))) d) (\<lambda>d.
        bind_err (set_constr Ser_cte t
          (Sub (cte ! t) (Add (Sub curve (y ! (t - 1)))
             (Mul (Mul (v ! (t - 1)) (Sin (epsi ! (t - 1)))) (Num (dt c))))) d) (\<lambda>d.
        set_constr Ser_epsi t
          (Sub (epsi ! t) (Sub (Sub (psi ! (t - 1)) psides)
             (Mul (Div (Mul (v ! (t - 1)) (delta ! (t - 1))) (Num (Lf c))) (Num (dt c))))) d))))))"

definition build_eq_constr :: "config \<Rightarrow> error + eq_dict" where
  "build_eq_constr c =
     bind_err (pin_constr c (EqualityConstraints (steps_ahead c) state_vars))
       (foldM_err (step_constr c) [1..<steps_ahead c])"

record constr =
  ctype :: string
  cfun :: num_fun
  cargs :: "real list option"

definition get_constr :: "eq_dict \<Rightarrow> series \<Rightarrow> nat \<Rightarrow> error + expr" where
  \<comment> \<open>\<open>eq_constr[symbol][t]\<close>. An entry still None cannot be compiled; after the two
      loops above no entry is None.\<close>
  "get_constr d key t =
     (case d key of
        None \<Rightarrow> Inl KeyError
      | Some l \<Rightarrow>
          if t < length l then (case l ! t of None \<Rightarrow> Inl TypeError | Some e \<Rightarrow> Inr e)
          else Inl IndexError)"

definition make_constr :: "config \<Rightarrow> eq_dict \<Rightarrow> series \<times> nat \<Rightarrow> constr list \<Rightarrow> error + constr list" where
  \<comment> \<open>One \<open>constr_funcs.append({'type': 'eq', 'fun': func, 'jac': ..., 'args': None})\<close>.
      The gradient entry \<open>jac\<close> is not modelled.\<close>
  "make_constr c d st acc =
     bind_err (get_constr d (fst st) (snd st)) (\<lambda>e.
       Inr (acc @ [\<lparr>ctype = ''eq'',
                    cfun = generate_fun e (vars (steps_ahead c)) init_syms
                             (poly_syms (poly_degree c + 1)),
                    cargs = None\<rparr>]))"

definition get_func_constraints_and_bounds :: "config \<Rightarrow> error + num_fun \<times> constr list" where
  \<comment> \<open>Returns \<open>(cost_func, constr_funcs)\<close>; \<open>cost_grad_func\<close> is not modelled.\<close>
  "get_func_constraints_and_bounds c =
     (let N = steps_ahead c;
          npoly = poly_degree c + 1;
          cost = cost_expr c
      in bind_err (build_eq_constr c) (\<lambda>eq_constr.
           let cost_func = generate_fun cost (vars N) init_syms (poly_syms npoly)
           in bind_err
                (foldM_err (make_constr c eq_constr)
                   (concat (map (\<lambda>s. map (\<lambda>t. (s, t)) [0..<N]) state_vars)) [])
                (\<lambda>constr_funcs. Inr (cost_func, constr_funcs))))"

subsection \<open>Construction\<close>

datatype log_level = Debug

record controller =
  cfg :: config
  bounds :: "(real option \<times> real option) list"
  state0 :: "real list"
  cost_func :: num_fun
  constr_funcs :: "constr list"
  steer :: "real option"
  throttle :: "real option"
  logger :: "(log_level \<times> string) list"

definition init_config :: "real \<Rightarrow> nat \<Rightarrow> real \<Rightarrow> config" where
  \<comment> \<open>The scalar attributes that \<open>__init__\<close> sets: the arguments, the cost
      coefficients, \<open>Lf\<close> and the degree of the fitted polynomial.\<close>
  "init_config target_speed0 steps_ahead0 dt0 =
     \<lparr>target_speed = target_speed0, steps_ahead = steps_ahead0, dt = dt0,
      cte_coeff = 100, epsi_coeff = 100, speed_coeff = 4 / 10, acc_coeff = 1,
      steer_coeff = 1 / 10, consec_acc_coeff = 50, consec_steer_coeff = 50,
      Lf = 25 / 10, poly_degree = 3\<rparr>"

definition VehicleMPCController ::
  "real \<Rightarrow> nat \<Rightarrow> real \<Rightarrow> real \<Rightarrow> real \<Rightarrow> error + controller" where
  \<comment> \<open>\<open>__init__(target_speed, steps_ahead, max_throttle, max_steering, dt)\<close>. The
      vehicle handle and the route file are not part of the model.\<close>
  "VehicleMPCController target_speed0 steps_ahead0 max_throttle max_steering dt0 =
     (let c = init_config target_speed0 steps_ahead0 dt0;
          bnds = replicate (6 * steps_ahead0) (None, None)
                 @ replicate steps_ahead0 (Some 0, Some max_throttle)
                 @ replicate steps_ahead0 (Some (- max_steering), Some max_steering);
          num_vars = length state_vars + 2;
          st0 = replicate (steps_ahead0 * num_vars) 0
      in bind_err (get_func_constraints_and_bounds c) (\<lambda>(cf, cs).
           Inr \<lparr>cfg = c, bounds = bnds, state0 = st0, cost_func = cf, constr_funcs = cs,
                steer = None, throttle = None,
                logger = [(Debug, ''MPC Controller initiated'')]\<rparr>))"

subsection \<open>Warm start\<close>

definition get_state0 ::
  "controller \<Rightarrow> real \<Rightarrow> real \<Rightarrow> real \<Rightarrow> real option \<Rightarrow> real option \<Rightarrow> real list
     \<Rightarrow> error + real list" where
  \<comment> \<open>Writes the eight slices of the buffer \<open>self.state0\<close> in place and returns it.\<close>
  "get_state0 self v cte epsi a delta poly =
     (let a = py_or0 a;
          delta = py_or0 delta;
          N = steps_ahead (cfg self);
          x = linspace 0 1 N;
          y = map (polyval poly) x;
          psi = 0
      in bind_err (assign_slice (state0 self) 0 N x) (\<lambda>b.
         bind_err (assign_slice b N (2 * N) y) (\<lambda>b.
           let b = fill_slice b (2 * N) (3 * N) psi;
               b = fill_slice b (3 * N) (4 * N) v;
               b = fill_slice b (4 * N) (5 * N) cte;
               b = fill_slice b (5 * N) (6 * N) epsi;
               b = fill_slice b (6 * N) (7 * N) a;
               b = fill_slice b (7 * N) (8 * N) delta
           in Inr b)))"

subsection \<open>Local reference\<close>

definition modified_transform_into_cars_coordinate_system ::
  "real \<times> real \<Rightarrow> real \<Rightarrow> real \<Rightarrow> real \<Rightarrow> real \<Rightarrow> real \<times> real" where
  "modified_transform_into_cars_coordinate_system pts x y cos_psi sin_psi =
     (let diff = (fst pts - x, snd pts - y)
      in (cos_psi * fst diff + sin_psi * snd diff,
          sin_psi * fst diff - cos_psi * snd diff))"

definition arctan2 :: "real \<Rightarrow> real \<Rightarrow> real" where
  \<comment> \<open>\<open>np.arctan2(y, x)\<close>.\<close>
  "arctan2 y x =
     (if 0 < x then arctan (y / x)
      else if x < 0 then (if 0 \<le> y then arctan (y / x) + pi else arctan (y / x) - pi)
      else if 0 < y then pi / 2
      else if y < 0 then - (pi / 2)
      else 0)"

definition polyfit1 :: "real \<Rightarrow> real \<Rightarrow> nat \<Rightarrow> error + real list" where
  \<comment> \<open>\<open>np.polyfit(np.array([px]), np.array([py]), deg)\<close>, the fit through one sample as
      numpy computes it: the Vandermonde row \<open>[px^deg, ..., px, 1]\<close> with each column
      divided by its norm, the least-squares solution of minimal norm of the scaled
      system (one equation, \<open>deg + 1\<close> unknowns), and the solution scaled back. A zero
      column makes the scaled matrix nan and the solve fails.\<close>
  "polyfit1 px py deg =
     (let lhs = map (\<lambda>j. px ^ (deg - j)) [0..<deg + 1];
          scale = map (\<lambda>a. sqrt (a * a)) lhs
      in if 0 \<in> set scale then Inl LinAlgError
         else
           let lhs = map (\<lambda>(a, s). a / s) (zip lhs scale);
               nrm = sum_list (map (\<lambda>b. b * b) lhs);
               c = map (\<lambda>b. b * py / nrm) lhs
           in Inr (map (\<lambda>(c, s). c / s) (zip c scale)))"

subsection \<open>One control tick\<close>

text \<open>
  The models \<open>Control\<close>, \<open>Vehicle\<close>, \<open>Transform\<close> and \<open>Location\<close> are declared in
  \<open>roar_autonomous_system.util.models\<close>, outside these sources; only the fields that
  \<open>run_step\<close> reads or writes appear here. The default-constructed command
  \<open>Control()\<close>, the speed that \<open>Vehicle.get_speed\<close> returns and scipy's
  \<open>minimize\<close> are parameters. The vehicle's transform at the tick is an argument of
  \<open>run_step\<close>.
\<close>

record location =
  loc_x :: real
  loc_y :: real

record rotation =
  pitch :: real
  roll :: real

record transform =
  location :: location
  rotation :: rotation

record control =
  steering :: real
  ctl_throttle :: real

record opt_result =
  message :: string
  res_x :: "real list"

record problem =
  p_fun :: num_fun
  p_x0 :: "real list"
  p_args :: "real list"
  p_bounds :: "(real option \<times> real option) list"
  p_constraints :: "constr list"
  p_tol :: real

record externals =
  Control_new :: control
  get_speed :: real
  minimize :: "problem \<Rightarrow> error + opt_result"

definition minimize_cost ::
  "externals \<Rightarrow> controller \<Rightarrow> (real option \<times> real option) list \<Rightarrow> real list \<Rightarrow> real list
     \<Rightarrow> controller \<times> (error + opt_result)" where
  \<comment> \<open>Stores \<open>init\<close> in the \<open>args\<close> slot of every constraint, then calls the solver.\<close>
  "minimize_cost ext self bnds x0 init =
     (let cs = map (\<lambda>cf. cf\<lparr>cargs := Some init\<rparr>) (constr_funcs self);
          self = self\<lparr>constr_funcs := cs\<rparr>
      in (self, minimize ext \<lparr>p_fun = cost_func self, p_x0 = x0, p_args = init,
                              p_bounds = bnds, p_constraints = cs, p_tol = 1\<rparr>))"

definition local_reference ::
  "controller \<Rightarrow> transform \<Rightarrow> transform \<Rightarrow> error + real list \<times> real \<times> real" where
  \<comment> \<open>The first part of \<open>run_step\<close>: the waypoint in the car's coordinates, the fitted
      polynomial, and \<open>cte = poly[-1]\<close>, \<open>e\<psi> = -arctan(poly[-2])\<close>.\<close>
  "local_reference self vehicle_transform next_waypoint =
     (let loc = location vehicle_transform;
          orient = rotation vehicle_transform;
          psi = arctan2 (pitch orient) (roll orient);
          cos_psi = cos psi;
          sin_psi = sin psi;
          x = loc_x loc;
          y = loc_y loc;
          pts = (loc_x (location next_waypoint), loc_y (location next_waypoint));
          pts_car = modified_transform_into_cars_coordinate_system pts x y cos_psi sin_psi
      in bind_err (polyfit1 (fst pts_car) (snd pts_car) (poly_degree (cfg self))) (\<lambda>poly.
         bind_err (py_index poly (- 1)) (\<lambda>cte.
         bind_err (py_index poly (- 2)) (\<lambda>p1.
           Inr (poly, cte, - arctan p1)))))"

definition run_step ::
  "externals \<Rightarrow> controller \<Rightarrow> transform \<Rightarrow> transform \<Rightarrow> error + controller \<times> control" where
  \<comment> \<open>One tick: the controller after the tick and the returned command, or the
      exception that leaves \<open>run_step\<close>.\<close>
  "run_step ext self vehicle_transform next_waypoint =
     (let v = get_speed ext
      in bind_err (local_reference self vehicle_transform next_waypoint) (\<lambda>(poly, cte, epsi).
           let init = [0, 0, 0, v, cte, epsi] @ poly
           in bind_err (get_state0 self v cte epsi (steer self) (throttle self) poly) (\<lambda>s0.
                let self = self\<lparr>state0 := s0\<rparr>
                in case minimize_cost ext self (bounds self) (state0 self) init of
                     (self, res) \<Rightarrow>
                       bind_err res (\<lambda>result.
                         let control = Control_new ext;
                             N = int (steps_ahead (cfg self))
                         in if sublist ''success'' (message result) then
                              bind_err (py_index (res_x result) (- N)) (\<lambda>st.
                              let control = control\<lparr>steering := st\<rparr>
                              in bind_err (py_index (res_x result) (- 2 * N)) (\<lambda>th.
                                   let control = control\<lparr>ctl_throttle := th\<rparr>
                                   in Inr (self, control)))
                            else
                              Inr (self\<lparr>logger := logger self
                                      @ [(Debug, ''Unsuccessful optimization'')]\<rparr>,
                                   control)))))"

section \<open>Auxiliary definitions\<close>

subsection \<open>Positions in the decision vector and in the argument list\<close>

fun series_pos :: "series \<Rightarrow> nat" where
  "series_pos Ser_x = 0"
| "series_pos Ser_y = 1"
| "series_pos Ser_psi = 2"
| "series_pos Ser_v = 3"
| "series_pos Ser_cte = 4"
| "series_pos Ser_epsi = 5"
| "series_pos Ser_a = 6"
| "series_pos Ser_delta = 7"

fun init_pos :: "series \<Rightarrow> nat" where
  "init_pos Ser_x = 0"
| "init_pos Ser_y = 1"
| "init_pos Ser_psi = 2"
| "init_pos Ser_v = 3"
| "init_pos Ser_cte = 4"
| "init_pos Ser_epsi = 5"
| "init_pos Ser_a = 0"
| "init_pos Ser_delta = 0"

subsection \<open>Closed forms of what the construction builds\<close>

definition pin_expr :: "series \<Rightarrow> expr" where
  "pin_expr s = Sub (Sym (Var s 0)) (Sym (Init s))"

definition curve_sym :: "nat \<Rightarrow> nat \<Rightarrow> expr" where
  "curve_sym n t = curve_expr (create_poly_symbols n) (Sym (Var Ser_x (t - 1)))"

definition psides_sym :: "nat \<Rightarrow> nat \<Rightarrow> expr" where
  "psides_sym n t = psides_expr (create_poly_symbols n) (Sym (Var Ser_x (t - 1)))"

fun dyn_expr :: "config \<Rightarrow> series \<Rightarrow> nat \<Rightarrow> expr" where
  "dyn_expr c Ser_x t =
     Sub (Sym (Var Ser_x t)) (Add (Sym (Var Ser_x (t - 1)))
       (Mul (Mul (Sym (Var Ser_v (t - 1))) (Cos (Sym (Var Ser_psi (t - 1))))) (Num (dt c))))"
| "dyn_expr c Ser_y t =
     Sub (Sym (Var Ser_y t)) (Add (Sym (Var Ser_y (t - 1)))
       (Mul (Mul (Sym (Var Ser_v (t - 1))) (Sin (Sym (Var Ser_psi (t - 1))))) (Num (dt c))))"
| "dyn_expr c Ser_psi t =
     Sub (Sym (Var Ser_psi t)) (Sub (Sym (Var Ser_psi (t - 1)))
       (Mul (Div (Mul (Sym (Var Ser_v (t - 1))) (Sym (Var Ser_delta (t - 1)))) (Num (Lf c)))
            (Num (dt c))))"
| "dyn_expr c Ser_v t =
     Sub (Sym (Var Ser_v t)) (Add (Sym (Var Ser_v (t - 1)))
       (Mul (Sym (Var Ser_a (t - 1))) (Num (dt c))))"
| "dyn_expr c Ser_cte t =
     Sub (Sym (Var Ser_cte t))
       (Add (Sub (curve_sym (poly_degree c + 1) t) (Sym (Var Ser_y (t - 1))))
            (Mul (Mul (Sym (Var Ser_v (t - 1))) (Sin (Sym (Var Ser_epsi (t - 1))))) (Num (dt c))))"
| "dyn_expr c Ser_epsi t =
     Sub (Sym (Var Ser_epsi t))
       (Sub (Sub (Sym (Var Ser_psi (t - 1))) (psides_sym (poly_degree c + 1) t))
            (Mul (Div (Mul (Sym (Var Ser_v (t - 1))) (Sym (Var Ser_delta (t - 1)))) (Num (Lf c)))
                 (Num (dt c))))"
| "dyn_expr c Ser_a t = Num 0"
| "dyn_expr c Ser_delta t = Num 0"

definition constr_expr :: "config \<Rightarrow> series \<Rightarrow> nat \<Rightarrow> expr" where
  "constr_expr c s t = (if t = 0 then pin_expr s else dyn_expr c s t)"

definition partial_dict :: "config \<Rightarrow> nat \<Rightarrow> eq_dict" where
  "partial_dict c n =
     (\<lambda>s. if s \<in> set state_vars
          then Some (map (\<lambda>t. if t < n then Some (constr_expr c s t) else None)
                         [0..<steps_ahead c])
          else None)"

definition full_dict :: "config \<Rightarrow> eq_dict" where
  "full_dict c =
     (\<lambda>s. if s \<in> set state_vars
          then Some (map (\<lambda>t. Some (constr_expr c s t)) [0..<steps_ahead c])
          else None)"

definition compiled :: "config \<Rightarrow> series \<Rightarrow> nat \<Rightarrow> constr" where
  "compiled c s t =
     \<lparr>ctype = ''eq'',
      cfun = generate_fun (constr_expr c s t) (vars (steps_ahead c)) init_syms
               (poly_syms (poly_degree c + 1)),
      cargs = None\<rparr>"

definition grid :: "nat \<Rightarrow> (series \<times> nat) list" where
  "grid N = concat (map (\<lambda>s. map (\<lambda>t. (s, t)) [0..<N]) state_vars)"

subsection \<open>The formulas of the specification\<close>

definition coeffs :: "(symbol \<Rightarrow> real) \<Rightarrow> nat \<Rightarrow> real list" where
  "coeffs \<rho> n = map (\<lambda>j. \<rho> (Poly j)) [0..<n]"

definition polyder :: "real list \<Rightarrow> real list" where
  "polyder p = map (\<lambda>j. p ! j * real (length p - 1 - j)) [0..<length p - 1]"

definition spec_constraint :: "config \<Rightarrow> (symbol \<Rightarrow> real) \<Rightarrow> series \<Rightarrow> nat \<Rightarrow> real" where
  "spec_constraint c \<rho> s t =
     (let x = (\<lambda>t. \<rho> (Var Ser_x t)); y = (\<lambda>t. \<rho> (Var Ser_y t));
          psi = (\<lambda>t. \<rho> (Var Ser_psi t)); v = (\<lambda>t. \<rho> (Var Ser_v t));
          cte = (\<lambda>t. \<rho> (Var Ser_cte t)); epsi = (\<lambda>t. \<rho> (Var Ser_epsi t));
          a = (\<lambda>t. \<rho> (Var Ser_a t)); delta = (\<lambda>t. \<rho> (Var Ser_delta t));
          poly = coeffs \<rho> (poly_degree c + 1);
          curve = polyval poly;
          psides = polyval (polyder poly)
      in if t = 0 then \<rho> (Var s 0) - \<rho> (Init s)
         else (case s of
             Ser_x \<Rightarrow> x t - (x (t - 1) + v (t - 1) * cos (psi (t - 1)) * dt c)
           | Ser_y \<Rightarrow> y t - (y (t - 1) + v (t - 1) * sin (psi (t - 1)) * dt c)
           | Ser_psi \<Rightarrow> psi t - (psi (t - 1) - v (t - 1) * delta (t - 1) / Lf c * dt c)
           | Ser_v \<Rightarrow> v t - (v (t - 1) + a (t - 1) * dt c)
           | Ser_cte \<Rightarrow> cte t - (curve (x (t - 1)) - y (t - 1)
                                   + v (t - 1) * sin (epsi (t - 1)) * dt c)
           | Ser_epsi \<Rightarrow> epsi t - (psi (t - 1) - psides (x (t - 1))
                                    - v (t - 1) * delta (t - 1) / Lf c * dt c)
           | Ser_a \<Rightarrow> 0
           | Ser_delta \<Rightarrow> 0))"

definition spec_cost :: "config \<Rightarrow> (symbol \<Rightarrow> real) \<Rightarrow> real" where
  "spec_cost c \<rho> =
     (let N = steps_ahead c;
          v = (\<lambda>t. \<rho> (Var Ser_v t));
          cte = (\<lambda>t. \<rho> (Var Ser_cte t)); epsi = (\<lambda>t. \<rho> (Var Ser_epsi t));
          a = (\<lambda>t. \<rho> (Var Ser_a t)); delta = (\<lambda>t. \<rho> (Var Ser_delta t))
      in (\<Sum>t = 0..<N. cte_coeff c * cte t ^ 2 + epsi_coeff c * epsi t ^ 2
                        + speed_coeff c * (v t - target_speed c) ^ 2
                        + acc_coeff c * a t ^ 2 + steer_coeff c * delta t ^ 2)
         + (\<Sum>t = 0..<N - 1. consec_acc_coeff c * (a (t + 1) - a t) ^ 2
                              + consec_steer_coeff c * (delta (t + 1) - delta t) ^ 2))"

subsection \<open>The lateral-offset scenario and two solvers\<close>

definition lateral_vehicle :: transform where
  "lateral_vehicle = \<lparr>location = \<lparr>loc_x = 0, loc_y = 0\<rparr>, rotation = \<lparr>pitch = 0, roll = 0\<rparr>\<rparr>"

definition lateral_waypoint :: transform where
  "lateral_waypoint = \<lparr>location = \<lparr>loc_x = 10, loc_y = 2\<rparr>, rotation = \<lparr>pitch = 0, roll = 0\<rparr>\<rparr>"

definition controller1 :: controller where
  "controller1 = projr (VehicleMPCController 10 1 1 1 (1 / 10))"

definition solver_success :: externals where
  "solver_success =
     \<lparr>Control_new = \<lparr>steering = 0, ctl_throttle = 0\<rparr>,
      get_speed = 5,
      minimize = (\<lambda>p. Inr \<lparr>message = ''Optimization terminated successfully'',
                            res_x = [0, 0, 0, 5, 0, 0, 7 / 10, 3 / 10]\<rparr>)\<rparr>"

definition solver_failure :: externals where
  "solver_failure =
     \<lparr>Control_new = \<lparr>steering = 0, ctl_throttle = 0\<rparr>,
      get_speed = 5,
      minimize = (\<lambda>p. Inr \<lparr>message = ''Iteration limit reached'', res_x = p_x0 p\<rparr>)\<rparr>"

definition lateral_poly :: "real list" where
  "lateral_poly = [- (1 / 2000), - (1 / 200), - (1 / 20), - (1 / 2)]"

definition lateral_state0 :: "real list" where
  "lateral_state0 = [0, - (1 / 2), 0, 5, - (1 / 2), arctan (1 / 20), 0, 0]"

definition lateral_init :: "real list" where
  "lateral_init = [0, 0, 0, 5, - (1 / 2), arctan (1 / 20)] @ lateral_poly"

definition success_result :: opt_result where
  "success_result = \<lparr>message = ''Optimization terminated successfully'',
                     res_x = [0, 0, 0, 5, 0, 0, 7 / 10, 3 / 10]\<rparr>"

definition failure_result :: opt_result where
  "failure_result = \<lparr>message = ''Iteration limit reached'', res_x = lateral_state0\<rparr>"

definition controller1_bound :: controller where
  "controller1_bound =
     controller1\<lparr>state0 := lateral_state0,
       constr_funcs := map (\<lambda>cf. cf\<lparr>cargs := Some lateral_init\<rparr>) (constr_funcs controller1)\<rparr>"

definition first_tick :: "error + controller \<times> control" where
  "first_tick = run_step solver_success controller1 lateral_vehicle lateral_waypoint"

section \<open>Lemmas\<close>

subsection \<open>Layout of the decision vector and binding of arguments\<close>

lemma vars_unfold:
  "vars N = map (Var Ser_x) [0..<N] @ map (Var Ser_y) [0..<N] @ map (Var Ser_psi) [0..<N]
     @ map (Var Ser_v) [0..<N] @ map (Var Ser_cte) [0..<N] @ map (Var Ser_epsi) [0..<N]
     @ map (Var Ser_a) [0..<N] @ map (Var Ser_delta) [0..<N]"
  by (simp add: vars_def)

lemma length_vars: "length (vars N) = 8 * N"
  by (simp add: vars_unfold)

lemma distinct_vars: "distinct (vars N)"
  by (auto simp add: vars_unfold distinct_map inj_on_def)

lemma vars_nth: "t < N \<Longrightarrow> vars N ! (series_pos s * N + t) = Var s t"
  by (cases s) (simp_all add: vars_unfold nth_append)

lemma all_syms_distinct: "distinct (vars N @ init_syms @ poly_syms n)"
  by (auto simp add: vars_unfold init_syms_def poly_syms_def distinct_map inj_on_def)

lemma bind_args_nth:
  "distinct syms \<Longrightarrow> length syms = length vals \<Longrightarrow> i < length syms \<Longrightarrow>
   bind_args syms vals (syms ! i) = vals ! i"
  by (simp add: bind_args_def map_of_zip_nth)

lemma bind_var:
  assumes "length z = 8 * N" "length as = 6 + n" "t < N"
  shows "bind_args (vars N @ init_syms @ poly_syms n) (z @ as) (Var s t) = z ! (series_pos s * N + t)"
proof -
  let ?syms = "vars N @ init_syms @ poly_syms n"
  have p: "series_pos s * N + t < 8 * N"
    using assms(3) by (cases s) simp_all
  have len: "length ?syms = length (z @ as)"
    using assms by (simp add: length_vars init_syms_def poly_syms_def)
  have "?syms ! (series_pos s * N + t) = Var s t"
    using p assms(3) by (simp add: nth_append length_vars vars_nth)
  moreover have "bind_args ?syms (z @ as) (?syms ! (series_pos s * N + t)) = (z @ as) ! (series_pos s * N + t)"
    using p len by (intro bind_args_nth all_syms_distinct) (simp_all add: length_vars)
  ultimately show ?thesis using p assms(1) by (simp add: nth_append)
qed

lemma bind_init:
  assumes "length z = 8 * N" "length as = 6 + n" "s \<in> set state_vars"
  shows "bind_args (vars N @ init_syms @ poly_syms n) (z @ as) (Init s) = as ! init_pos s"
proof -
  let ?syms = "vars N @ init_syms @ poly_syms n"
  have len: "length ?syms = length (z @ as)"
    using assms by (simp add: length_vars init_syms_def poly_syms_def)
  have "?syms ! (8 * N + init_pos s) = Init s"
    using assms(3) by (auto simp add: nth_append length_vars init_syms_def state_vars_def)
  moreover have "bind_args ?syms (z @ as) (?syms ! (8 * N + init_pos s)) = (z @ as) ! (8 * N + init_pos s)"
    using len assms by (intro bind_args_nth all_syms_distinct) (auto simp add: length_vars state_vars_def)
  ultimately show ?thesis using assms(1) by (simp add: nth_append)
qed

lemma bind_poly:
  assumes "length z = 8 * N" "length as = 6 + n" "j < n"
  shows "bind_args (vars N @ init_syms @ poly_syms n) (z @ as) (Poly j) = as ! (6 + j)"
proof -
  let ?syms = "vars N @ init_syms @ poly_syms n"
  have len: "length ?syms = length (z @ as)"
    using assms by (simp add: length_vars init_syms_def poly_syms_def)
  have "?syms ! (8 * N + 6 + j) = Poly j"
    using assms(3) by (simp add: nth_append length_vars init_syms_def poly_syms_def)
  moreover have "bind_args ?syms (z @ as) (?syms ! (8 * N + 6 + j)) = (z @ as) ! (8 * N + 6 + j)"
    using len assms by (intro bind_args_nth all_syms_distinct) (auto simp add: length_vars)
  ultimately show ?thesis using assms(1) by (simp add: nth_append)
qed

lemma sym_nth: "t < N \<Longrightarrow> create_array_of_symbols s N ! t = Sym (Var s t)"
  by (simp add: create_array_of_symbols_def)

lemma poly_sym_nth: "j < n \<Longrightarrow> create_poly_symbols n ! j = Sym (Poly j)"
  by (simp add: create_poly_symbols_def)

subsection \<open>The loops that build the equality constraints\<close>

lemma foldM_err_append:
  "foldM_err f (xs @ ys) s = bind_err (foldM_err f xs s) (foldM_err f ys)"
  by (induction xs arbitrary: s) (simp_all add: bind_err_def split: sum.splits)

lemma map_upt_update:
  "n < N \<Longrightarrow> (map f [0..<N])[n := v] = map (f(n := v)) [0..<N]"
  by (rule nth_equalityI) (simp_all add: nth_list_update)

lemma EqualityConstraints_partial:
  "EqualityConstraints (steps_ahead c) state_vars = partial_dict c 0"
  by (rule ext) (simp add: EqualityConstraints_def partial_dict_def state_vars_def map_replicate_const)

lemma set_constr_partial:
  "d s = Some (map f [0..<N]) \<Longrightarrow> t < N \<Longrightarrow>
   set_constr s t e d = Inr (d(s \<mapsto> map (f(t := Some e)) [0..<N]))"
  by (simp add: set_constr_def map_upt_update)

lemma pin_constr_partial:
  assumes "0 < steps_ahead c"
  shows "pin_constr c (partial_dict c 0) = Inr (partial_dict c 1)"
proof -
  have "pin_constr c (partial_dict c 0) =
    Inr ((partial_dict c 0)
      (Ser_x \<mapsto> map ((\<lambda>t. None)(0 := Some (pin_expr Ser_x))) [0..<steps_ahead c],
       Ser_y \<mapsto> map ((\<lambda>t. None)(0 := Some (pin_expr Ser_y))) [0..<steps_ahead c],
       Ser_psi \<mapsto> map ((\<lambda>t. None)(0 := Some (pin_expr Ser_psi))) [0..<steps_ahead c],
       Ser_v \<mapsto> map ((\<lambda>t. None)(0 := Some (pin_expr Ser_v))) [0..<steps_ahead c],
       Ser_cte \<mapsto> map ((\<lambda>t. None)(0 := Some (pin_expr Ser_cte))) [0..<steps_ahead c],
       Ser_epsi \<mapsto> map ((\<lambda>t. None)(0 := Some (pin_expr Ser_epsi))) [0..<steps_ahead c]))"
    using assms
    by (simp add: pin_constr_def Let_def bind_err_def sym_nth set_constr_partial
        partial_dict_def state_vars_def pin_expr_def)
  also have "\<dots> = Inr (partial_dict c 1)"
  proof -
    have "\<And>s. ((partial_dict c 0)
      (Ser_x \<mapsto> map ((\<lambda>t. None)(0 := Some (pin_expr Ser_x))) [0..<steps_ahead c],
       Ser_y \<mapsto> map ((\<lambda>t. None)(0 := Some (pin_expr Ser_y))) [0..<steps_ahead c],
       Ser_psi \<mapsto> map ((\<lambda>t. None)(0 := Some (pin_expr Ser_psi))) [0..<steps_ahead c],
       Ser_v \<mapsto> map ((\<lambda>t. None)(0 := Some (pin_expr Ser_v))) [0..<steps_ahead c],
       Ser_cte \<mapsto> map ((\<lambda>t. None)(0 := Some (pin_expr Ser_cte))) [0..<steps_ahead c],
       Ser_epsi \<mapsto> map ((\<lambda>t. None)(0 := Some (pin_expr Ser_epsi))) [0..<steps_ahead c])) s
      = partial_dict c 1 s"
      subgoal for s
        by (cases s) (simp_all add: partial_dict_def state_vars_def constr_expr_def)
      done
    then show ?thesis by (simp add: fun_eq_iff)
  qed
  finally show ?thesis .
qed

lemma step_constr_partial:
  assumes "0 < n" "n < steps_ahead c"
  shows "step_constr c n (partial_dict c n) = Inr (partial_dict c (Suc n))"
proof -
  let ?N = "steps_ahead c"
  let ?f = "\<lambda>s t. if t < n then Some (constr_expr c s t) else None"
  let ?d = "(partial_dict c n)
      (Ser_x \<mapsto> map ((?f Ser_x)(n := Some (dyn_expr c Ser_x n))) [0..<?N],
       Ser_y \<mapsto> map ((?f Ser_y)(n := Some (dyn_expr c Ser_y n))) [0..<?N],
       Ser_psi \<mapsto> map ((?f Ser_psi)(n := Some (dyn_expr c Ser_psi n))) [0..<?N],
       Ser_v \<mapsto> map ((?f Ser_v)(n := Some (dyn_expr c Ser_v n))) [0..<?N],
       Ser_cte \<mapsto> map ((?f Ser_cte)(n := Some (dyn_expr c Ser_cte n))) [0..<?N],
       Ser_epsi \<mapsto> map ((?f Ser_epsi)(n := Some (dyn_expr c Ser_epsi n))) [0..<?N])"
  have pred: "n - Suc 0 < ?N" using assms by simp
  have "step_constr c n (partial_dict c n) = Inr ?d"
    using assms pred
    by (simp add: step_constr_def Let_def bind_err_def sym_nth set_constr_partial
        partial_dict_def state_vars_def curve_sym_def psides_sym_def)
  also have "?d = partial_dict c (Suc n)"
  proof (rule ext)
    fix s
    have upd: "\<And>s. (?f s)(n := Some (dyn_expr c s n))
                 = (\<lambda>t. if t < Suc n then Some (constr_expr c s t) else None)"
      using assms(1) by (auto simp add: fun_eq_iff constr_expr_def)
    show "?d s = partial_dict c (Suc n) s"
      by (cases s) (simp_all only: upd, simp_all add: partial_dict_def state_vars_def)
  qed
  finally show ?thesis .
qed

lemma loop_constr_partial:
  "0 < n \<Longrightarrow> n \<le> steps_ahead c \<Longrightarrow>
   foldM_err (step_constr c) [1..<n] (partial_dict c 1) = Inr (partial_dict c n)"
proof (induction n)
  case 0
  then show ?case by simp
next
  case (Suc n)
  show ?case
  proof (cases "n = 0")
    case True
    then show ?thesis by simp
  next
    case False
    then have "[1..<Suc n] = [1..<n] @ [n]" by simp
    then show ?thesis
      using Suc False
      by (simp add: foldM_err_append bind_err_def step_constr_partial del: upt_Suc)
  qed
qed

lemma partial_dict_full: "partial_dict c (steps_ahead c) = full_dict c"
  by (rule ext) (simp add: partial_dict_def full_dict_def)

lemma build_eq_constr_full:
  "0 < steps_ahead c \<Longrightarrow> build_eq_constr c = Inr (full_dict c)"
  using loop_constr_partial [of "steps_ahead c" c]
  by (simp add: build_eq_constr_def EqualityConstraints_partial pin_constr_partial
      bind_err_def partial_dict_full)

lemma build_eq_constr_empty:
  "steps_ahead c = 0 \<Longrightarrow> build_eq_constr c = Inl IndexError"
  by (simp add: build_eq_constr_def pin_constr_def bind_err_def)

lemma full_dict_dom: "dom (full_dict c) = set state_vars"
  by (auto simp add: full_dict_def dom_def)

subsection \<open>The polynomial and its derivative\<close>

lemma eval_foldl_Add:
  "eval \<rho> (foldl Add a es) = eval \<rho> a + sum_list (map (eval \<rho>) es)"
  by (induction es arbitrary: a) simp_all

lemma polyval_snoc: "polyval (p @ [a]) x = polyval p x * x + a"
  by (simp add: polyval_def)

lemma polyval_sum:
  "polyval p x = (\<Sum>i<length p. p ! (length p - (i + 1)) * x ^ i)"
proof (induction p rule: rev_induct)
  case Nil
  then show ?case by (simp add: polyval_def)
next
  case (snoc a p)
  let ?n = "length p"
  have "(\<Sum>i<Suc ?n. (p @ [a]) ! (Suc ?n - (i + 1)) * x ^ i)
        = a + (\<Sum>i<?n. (p @ [a]) ! (Suc ?n - (Suc i + 1)) * x ^ Suc i)"
    by (subst sum.lessThan_Suc_shift) simp
  also have "(\<Sum>i<?n. (p @ [a]) ! (Suc ?n - (Suc i + 1)) * x ^ Suc i)
        = (\<Sum>i<?n. p ! (?n - (i + 1)) * x ^ i * x)"
  proof (intro sum.cong refl)
    fix i assume "i \<in> {..<?n}"
    then have "?n - Suc i < ?n" by auto
    then show "(p @ [a]) ! (Suc ?n - (Suc i + 1)) * x ^ Suc i = p ! (?n - (i + 1)) * x ^ i * x"
      by (simp add: nth_append)
  qed
  also have "\<dots> = (\<Sum>i<?n. p ! (?n - (i + 1)) * x ^ i) * x"
    by (simp add: sum_distrib_right)
  finally show ?case
    using snoc by (simp add: polyval_snoc)
qed

lemma eval_curve_expr:
  "eval \<rho> (curve_expr (create_poly_symbols n) x) = polyval (coeffs \<rho> n) (eval \<rho> x)"
proof -
  have "eval \<rho> (curve_expr (create_poly_symbols n) x)
        = (\<Sum>i = 0..<n. eval \<rho> (create_poly_symbols n ! (n - (i + 1))) * eval \<rho> x ^ i)"
    unfolding curve_expr_def eval_foldl_Add
    by (simp add: interv_sum_list_conv_sum_set_nat comp_def create_poly_symbols_def)
  also have "\<dots> = (\<Sum>i = 0..<n. \<rho> (Poly (n - (i + 1))) * eval \<rho> x ^ i)"
    by (intro sum.cong refl) (simp add: poly_sym_nth)
  also have "\<dots> = (\<Sum>i = 0..<n. coeffs \<rho> n ! (n - (i + 1)) * eval \<rho> x ^ i)"
    by (intro sum.cong refl) (simp add: coeffs_def)
  also have "\<dots> = polyval (coeffs \<rho> n) (eval \<rho> x)"
    by (simp add: polyval_sum coeffs_def atLeast0LessThan)
  finally show ?thesis .
qed

lemma eval_psides_expr:
  "eval \<rho> (psides_expr (create_poly_symbols n) x)
   = (\<Sum>i<n. coeffs \<rho> n ! (n - (i + 1)) * (real i * eval \<rho> x ^ (i - 1)))"
proof -
  have "eval \<rho> (psides_expr (create_poly_symbols n) x)
        = (\<Sum>i = 1..<n. eval \<rho> (create_poly_symbols n ! (n - (i + 1))) * real i
                          * eval \<rho> x ^ (i - 1))"
    unfolding psides_expr_def eval_foldl_Add
    by (simp add: interv_sum_list_conv_sum_set_nat comp_def create_poly_symbols_def)
  also have "\<dots> = (\<Sum>i = 1..<n. coeffs \<rho> n ! (n - (i + 1)) * (real i * eval \<rho> x ^ (i - 1)))"
    by (intro sum.cong refl) (simp add: poly_sym_nth coeffs_def)
  also have "\<dots> = (\<Sum>i = 0..<n. coeffs \<rho> n ! (n - (i + 1)) * (real i * eval \<rho> x ^ (i - 1)))"
    by (cases n) (simp_all add: sum.atLeast_Suc_lessThan)
  finally show ?thesis by (simp add: atLeast0LessThan)
qed

lemma polyval_deriv:
  "((\<lambda>u. polyval p u) has_real_derivative
      (\<Sum>i<length p. p ! (length p - (i + 1)) * (real i * x ^ (i - 1)))) (at x)"
  unfolding polyval_sum
  by (auto intro!: derivative_eq_intros sum.cong)

lemma psides_is_derivative:
  "((\<lambda>u. polyval (coeffs \<rho> n) u) has_real_derivative
      eval \<rho> (psides_expr (create_poly_symbols n) x)) (at (eval \<rho> x))"
proof -
  have "length (coeffs \<rho> n) = n" by (simp add: coeffs_def)
  then show ?thesis
    using polyval_deriv [of "coeffs \<rho> n" "eval \<rho> x"]
    by (simp add: eval_psides_expr)
qed

lemma polyval_polyder_sum:
  "polyval (polyder p) x = (\<Sum>i<length p. p ! (length p - (i + 1)) * (real i * x ^ (i - 1)))"
proof (cases "length p")
  case 0
  then show ?thesis by (simp add: polyder_def polyval_def)
next
  case (Suc m)
  have lp: "length (polyder p) = m" using Suc by (simp add: polyder_def)
  have "polyval (polyder p) x = (\<Sum>i<m. polyder p ! (m - (i + 1)) * x ^ i)"
    using polyval_sum [of "polyder p" x] lp by simp
  also have "\<dots> = (\<Sum>i<m. p ! (Suc m - (Suc i + 1)) * (real (Suc i) * x ^ (Suc i - 1)))"
  proof (intro sum.cong refl)
    fix i assume "i \<in> {..<m}"
    then have i: "i < m" by simp
    then have "m - (i + 1) < m" by simp
    then have "polyder p ! (m - (i + 1)) = p ! (m - (i + 1)) * real (m - (m - (i + 1)))"
      using Suc by (simp add: polyder_def)
    moreover have "m - (m - (i + 1)) = Suc i" using i by simp
    ultimately show "polyder p ! (m - (i + 1)) * x ^ i
        = p ! (Suc m - (Suc i + 1)) * (real (Suc i) * x ^ (Suc i - 1))"
      by simp
  qed
  also have "\<dots> = (\<Sum>i<Suc m. p ! (Suc m - (i + 1)) * (real i * x ^ (i - 1)))"
  proof -
    let ?G = "\<lambda>i. p ! (Suc m - (i + 1)) * (real i * x ^ (i - 1))"
    have "(\<Sum>i<Suc m. ?G i) = ?G 0 + (\<Sum>i<m. ?G (Suc i))"
      by (rule sum.lessThan_Suc_shift)
    then show ?thesis by simp
  qed
  finally show ?thesis using Suc by simp
qed

lemma polyval_has_derivative:
  "(polyval p has_real_derivative polyval (polyder p) x) (at x)"
  using polyval_deriv [of p x] by (simp add: polyval_polyder_sum)

lemma eval_psides_polyder:
  "eval \<rho> (psides_expr (create_poly_symbols n) x) = polyval (polyder (coeffs \<rho> n)) (eval \<rho> x)"
proof -
  have "length (coeffs \<rho> n) = n" by (simp add: coeffs_def)
  then show ?thesis by (simp add: eval_psides_expr polyval_polyder_sum)
qed

lemma eval_constr_expr:
  "s \<in> set state_vars \<Longrightarrow> eval \<rho> (constr_expr c s t) = spec_constraint c \<rho> s t"
  by (cases s)
    (simp_all add: constr_expr_def spec_constraint_def pin_expr_def state_vars_def
      curve_sym_def psides_sym_def eval_curve_expr eval_psides_polyder)

subsection \<open>The cost\<close>

lemma eval_foldl_accum:
  "eval \<rho> (foldl (\<lambda>cost t. Add cost (f t)) a ts)
   = eval \<rho> a + sum_list (map (\<lambda>t. eval \<rho> (f t)) ts)"
  by (induction ts arbitrary: a) simp_all

lemma eval_stage_cost:
  "t < steps_ahead c \<Longrightarrow>
   eval \<rho> (stage_cost c t) =
     cte_coeff c * \<rho> (Var Ser_cte t) ^ 2 + epsi_coeff c * \<rho> (Var Ser_epsi t) ^ 2
     + speed_coeff c * (\<rho> (Var Ser_v t) - target_speed c) ^ 2
     + acc_coeff c * \<rho> (Var Ser_a t) ^ 2 + steer_coeff c * \<rho> (Var Ser_delta t) ^ 2"
  by (simp add: stage_cost_def Let_def sym_nth)

lemma eval_consec_cost:
  "t < steps_ahead c - 1 \<Longrightarrow>
   eval \<rho> (consec_cost c t) =
     consec_acc_coeff c * (\<rho> (Var Ser_a (t + 1)) - \<rho> (Var Ser_a t)) ^ 2
     + consec_steer_coeff c * (\<rho> (Var Ser_delta (t + 1)) - \<rho> (Var Ser_delta t)) ^ 2"
  by (simp add: consec_cost_def Let_def sym_nth)

lemma eval_cost_expr: "eval \<rho> (cost_expr c) = spec_cost c \<rho>"
proof -
  let ?N = "steps_ahead c"
  have "eval \<rho> (cost_expr c)
        = (\<Sum>t = 0..<?N. eval \<rho> (stage_cost c t))
          + (\<Sum>t = 0..<?N - 1. eval \<rho> (consec_cost c t))"
    by (simp add: cost_expr_def Let_def eval_foldl_accum interv_sum_list_conv_sum_set_nat)
  also have "(\<Sum>t = 0..<?N. eval \<rho> (stage_cost c t))
      = (\<Sum>t = 0..<?N. cte_coeff c * \<rho> (Var Ser_cte t) ^ 2 + epsi_coeff c * \<rho> (Var Ser_epsi t) ^ 2
     + speed_coeff c * (\<rho> (Var Ser_v t) - target_speed c) ^ 2
     + acc_coeff c * \<rho> (Var Ser_a t) ^ 2 + steer_coeff c * \<rho> (Var Ser_delta t) ^ 2)"
    by (intro sum.cong refl) (simp add: eval_stage_cost)
  also have "(\<Sum>t = 0..<?N - 1. eval \<rho> (consec_cost c t))
      = (\<Sum>t = 0..<?N - 1. consec_acc_coeff c * (\<rho> (Var Ser_a (t + 1)) - \<rho> (Var Ser_a t)) ^ 2
     + consec_steer_coeff c * (\<rho> (Var Ser_delta (t + 1)) - \<rho> (Var Ser_delta t)) ^ 2)"
    by (intro sum.cong refl) (simp add: eval_consec_cost)
  finally show ?thesis by (simp add: spec_cost_def Let_def)
qed

subsection \<open>Compilation and construction\<close>

lemma get_constr_full:
  "s \<in> set state_vars \<Longrightarrow> t < steps_ahead c \<Longrightarrow>
   get_constr (full_dict c) s t = Inr (constr_expr c s t)"
  by (simp add: get_constr_def full_dict_def)

lemma make_constr_full:
  "s \<in> set state_vars \<Longrightarrow> t < steps_ahead c \<Longrightarrow>
   make_constr c (full_dict c) (s, t) acc = Inr (acc @ [compiled c s t])"
  by (simp add: make_constr_def get_constr_full bind_err_def compiled_def)

lemma foldM_make_constr:
  "set sts \<subseteq> set state_vars \<times> {..<steps_ahead c} \<Longrightarrow>
   foldM_err (make_constr c (full_dict c)) sts acc
   = Inr (acc @ map (\<lambda>(s, t). compiled c s t) sts)"
proof (induction sts arbitrary: acc)
  case Nil
  then show ?case by simp
next
  case (Cons st sts)
  obtain s t where st: "st = (s, t)" by (cases st)
  with Cons.prems have "s \<in> set state_vars" "t < steps_ahead c" by auto
  then have "make_constr c (full_dict c) st acc = Inr (acc @ [compiled c s t])"
    using st by (simp add: make_constr_full)
  moreover have "set sts \<subseteq> set state_vars \<times> {..<steps_ahead c}"
    using Cons.prems by simp
  ultimately show ?case
    using Cons.IH [of "acc @ [compiled c s t]"] st by simp
qed

lemma grid_subset: "set (grid N) \<subseteq> set state_vars \<times> {..<N}"
  by (auto simp add: grid_def)

lemma get_func_constraints_and_bounds_ok:
  assumes "0 < steps_ahead c"
  shows "get_func_constraints_and_bounds c =
     Inr (generate_fun (cost_expr c) (vars (steps_ahead c)) init_syms
            (poly_syms (poly_degree c + 1)),
          map (\<lambda>(s, t). compiled c s t) (grid (steps_ahead c)))"
  using assms foldM_make_constr [OF grid_subset, of c "[]"]
  by (simp add: get_func_constraints_and_bounds_def Let_def build_eq_constr_full bind_err_def
      grid_def)

lemma get_func_constraints_and_bounds_empty:
  "steps_ahead c = 0 \<Longrightarrow> get_func_constraints_and_bounds c = Inl IndexError"
  by (simp add: get_func_constraints_and_bounds_def Let_def build_eq_constr_empty bind_err_def)

lemma concat_grid_nth:
  "k < length ss \<Longrightarrow> t < N \<Longrightarrow>
   concat (map (\<lambda>s. map (f s) [0..<N]) ss) ! (k * N + t) = f (ss ! k) t"
proof (induction ss arbitrary: k)
  case Nil
  then show ?case by simp
next
  case (Cons a ss)
  show ?case
  proof (cases k)
    case 0
    then show ?thesis using Cons.prems by (simp add: nth_append)
  next
    case (Suc k')
    then have "k' < length ss" using Cons.prems by simp
    then have "concat (map (\<lambda>s. map (f s) [0..<N]) ss) ! (k' * N + t) = f (ss ! k') t"
      using Cons.IH Cons.prems by simp
    then show ?thesis using Suc by (simp add: nth_append)
  qed
qed

lemma length_grid: "length (grid N) = 6 * N"
  by (simp add: grid_def state_vars_def)

lemma grid_nth: "k < 6 \<Longrightarrow> t < N \<Longrightarrow> grid N ! (k * N + t) = (state_vars ! k, t)"
  unfolding grid_def
  by (rule concat_grid_nth) (simp_all add: state_vars_def)

lemma compiled_nth:
  assumes "k < 6" "t < N"
  shows "map (\<lambda>(s, t). compiled c s t) (grid N) ! (k * N + t) = compiled c (state_vars ! k) t"
proof -
  have "k * N + t < 6 * N"
  proof -
    have "k * N + t < k * N + N" using assms(2) by simp
    also have "\<dots> = Suc k * N" by simp
    also have "\<dots> \<le> 6 * N" using assms(1) by (intro mult_le_mono1) simp
    finally show ?thesis .
  qed
  then show ?thesis
    using assms by (simp add: length_grid grid_nth)
qed

lemma cfun_compiled_pin:
  assumes "0 < steps_ahead c" "s \<in> set state_vars"
    "length z = 8 * steps_ahead c" "length as = 6 + (poly_degree c + 1)"
  shows "cfun (compiled c s 0) z as = Inr (z ! (series_pos s * steps_ahead c) - as ! init_pos s)"
proof -
  let ?N = "steps_ahead c"
  let ?n = "poly_degree c + 1"
  have "cfun (compiled c s 0) z as
        = Inr (eval (bind_args (vars ?N @ init_syms @ poly_syms ?n) (z @ as)) (pin_expr s))"
    using assms(3,4)
    by (simp add: compiled_def generate_fun_def lambdify_def constr_expr_def length_vars
        init_syms_def poly_syms_def)
  moreover have "bind_args (vars ?N @ init_syms @ poly_syms ?n) (z @ as) (Var s 0)
        = z ! (series_pos s * ?N + 0)"
    using assms by (intro bind_var) simp_all
  moreover have "bind_args (vars ?N @ init_syms @ poly_syms ?n) (z @ as) (Init s) = as ! init_pos s"
    using assms by (intro bind_init) simp_all
  ultimately show ?thesis by (simp add: pin_expr_def)
qed

lemma VehicleMPCController_ok:
  assumes "0 < N"
  shows "VehicleMPCController ts N mt ms d =
     Inr \<lparr>cfg = init_config ts N d,
          bounds = replicate (6 * N) (None, None) @ replicate N (Some 0, Some mt)
                   @ replicate N (Some (- ms), Some ms),
          state0 = replicate (N * 8) 0,
          cost_func = generate_fun (cost_expr (init_config ts N d)) (vars N) init_syms
                        (poly_syms 4),
          constr_funcs = map (\<lambda>(s, t). compiled (init_config ts N d) s t) (grid N),
          steer = None, throttle = None,
          logger = [(Debug, ''MPC Controller initiated'')]\<rparr>"
proof -
  have N: "0 < steps_ahead (init_config ts N d)"
    using assms by (simp add: init_config_def)
  have sa: "steps_ahead (init_config ts N d) = N" "poly_degree (init_config ts N d) = 3"
    by (simp_all add: init_config_def)
  show ?thesis
    unfolding VehicleMPCController_def Let_def
    by (simp add: get_func_constraints_and_bounds_ok [OF N] bind_err_def sa state_vars_def)
qed

lemma VehicleMPCController_empty:
  "VehicleMPCController ts 0 mt ms d = Inl IndexError"
proof -
  have "get_func_constraints_and_bounds (init_config ts 0 d) = Inl IndexError"
    by (rule get_func_constraints_and_bounds_empty) (simp add: init_config_def)
  then show ?thesis
    by (simp add: VehicleMPCController_def Let_def bind_err_def)
qed

lemma constructed_fields:
  assumes "VehicleMPCController ts N mt ms d = Inr self"
  shows "steps_ahead (cfg self) = N" "poly_degree (cfg self) = 3"
    "length (state0 self) = 8 * N" "steer self = None" "throttle self = None"
proof -
  have N: "0 < N"
    using assms VehicleMPCController_empty [of ts mt ms d] by (cases N) simp_all
  show "steps_ahead (cfg self) = N" "poly_degree (cfg self) = 3"
    "length (state0 self) = 8 * N" "steer self = None" "throttle self = None"
    using assms unfolding VehicleMPCController_ok [OF N]
    by (auto simp add: init_config_def)
qed

lemma controller1_eq:
  "controller1 =
     \<lparr>cfg = init_config 10 1 (1 / 10),
      bounds = replicate (6 * 1) (None, None) @ replicate 1 (Some 0, Some 1)
               @ replicate 1 (Some (- 1), Some 1),
      state0 = replicate (1 * 8) 0,
      cost_func = generate_fun (cost_expr (init_config 10 1 (1 / 10))) (vars 1) init_syms
                    (poly_syms 4),
      constr_funcs = map (\<lambda>(s, t). compiled (init_config 10 1 (1 / 10)) s t) (grid 1),
      steer = None, throttle = None,
      logger = [(Debug, ''MPC Controller initiated'')]\<rparr>"
proof -
  have "0 < (1::nat)" by simp
  then show ?thesis
    unfolding controller1_def by (simp only: VehicleMPCController_ok sum.sel)
qed

lemma controller1_fields:
  "steps_ahead (cfg controller1) = 1" "poly_degree (cfg controller1) = 3"
  "length (state0 controller1) = 8" "steer controller1 = None" "throttle controller1 = None"
  by (simp_all add: controller1_eq init_config_def)

subsection \<open>The warm start\<close>

lemma length_linspace: "length (linspace a b n) = n"
  by (simp add: linspace_def)

lemma assign_slice_app:
  "length pre = lo \<Longrightarrow> hi = lo + k \<Longrightarrow> length vals = k \<Longrightarrow> k \<le> length rest \<Longrightarrow>
   assign_slice (pre @ rest) lo hi vals = Inr ((pre @ vals) @ drop k rest)"
  by (simp add: assign_slice_def slice_bounds_def min_def max_def)

lemma fill_slice_app:
  "length pre = lo \<Longrightarrow> hi = lo + k \<Longrightarrow> k \<le> length rest \<Longrightarrow>
   fill_slice (pre @ rest) lo hi c = (pre @ replicate k c) @ drop k rest"
  by (simp add: fill_slice_def slice_bounds_def min_def max_def)

lemma get_state0_result:
  assumes "length (state0 self) = 8 * steps_ahead (cfg self)"
  shows "get_state0 self v cte epsi a delta poly =
     Inr (linspace 0 1 (steps_ahead (cfg self))
          @ map (polyval poly) (linspace 0 1 (steps_ahead (cfg self)))
          @ replicate (steps_ahead (cfg self)) 0
          @ replicate (steps_ahead (cfg self)) v
          @ replicate (steps_ahead (cfg self)) cte
          @ replicate (steps_ahead (cfg self)) epsi
          @ replicate (steps_ahead (cfg self)) (py_or0 a)
          @ replicate (steps_ahead (cfg self)) (py_or0 delta))"
proof -
  let ?N = "steps_ahead (cfg self)"
  let ?x = "linspace 0 1 ?N"
  let ?y = "map (polyval poly) ?x"
  let ?b = "state0 self"
  have s1: "assign_slice ?b 0 ?N ?x = Inr (([] @ ?x) @ drop ?N ?b)"
    using assign_slice_app [of "[]" 0 ?N ?N ?x ?b] assms by (simp add: length_linspace)
  let ?p1 = "[] @ ?x"
  let ?r1 = "drop ?N ?b"
  have s2: "assign_slice (?p1 @ ?r1) ?N (2 * ?N) ?y = Inr ((?p1 @ ?y) @ drop ?N ?r1)"
    by (rule assign_slice_app) (simp_all add: length_linspace assms)
  let ?p2 = "?p1 @ ?y"
  let ?r2 = "drop ?N ?r1"
  have s3: "fill_slice (?p2 @ ?r2) (2 * ?N) (3 * ?N) 0 = (?p2 @ replicate ?N 0) @ drop ?N ?r2"
    by (rule fill_slice_app) (simp_all add: length_linspace assms)
  let ?p3 = "?p2 @ replicate ?N 0"
  let ?r3 = "drop ?N ?r2"
  have s4: "fill_slice (?p3 @ ?r3) (3 * ?N) (4 * ?N) v = (?p3 @ replicate ?N v) @ drop ?N ?r3"
    by (rule fill_slice_app) (simp_all add: length_linspace assms)
  let ?p4 = "?p3 @ replicate ?N v"
  let ?r4 = "drop ?N ?r3"
  have s5: "fill_slice (?p4 @ ?r4) (4 * ?N) (5 * ?N) cte = (?p4 @ replicate ?N cte) @ drop ?N ?r4"
    by (rule fill_slice_app) (simp_all add: length_linspace assms)
  let ?p5 = "?p4 @ replicate ?N cte"
  let ?r5 = "drop ?N ?r4"
  have s6: "fill_slice (?p5 @ ?r5) (5 * ?N) (6 * ?N) epsi = (?p5 @ replicate ?N epsi) @ drop ?N ?r5"
    by (rule fill_slice_app) (simp_all add: length_linspace assms)
  let ?p6 = "?p5 @ replicate ?N epsi"
  let ?r6 = "drop ?N ?r5"
  have s7: "fill_slice (?p6 @ ?r6) (6 * ?N) (7 * ?N) (py_or0 a)
      = (?p6 @ replicate ?N (py_or0 a)) @ drop ?N ?r6"
    by (rule fill_slice_app) (simp_all add: length_linspace assms)
  let ?p7 = "?p6 @ replicate ?N (py_or0 a)"
  let ?r7 = "drop ?N ?r6"
  have s8: "fill_slice (?p7 @ ?r7) (7 * ?N) (8 * ?N) (py_or0 delta)
      = (?p7 @ replicate ?N (py_or0 delta)) @ drop ?N ?r7"
    by (rule fill_slice_app) (simp_all add: length_linspace assms)
  have e: "drop ?N ?r7 = []" using assms by simp
  show ?thesis
    unfolding get_state0_def Let_def bind_err_def
    using s1 s2 s3 s4 s5 s6 s7 s8 e by simp
qed

subsection \<open>The fit through one sample\<close>

lemma zip_map_same: "zip (map f xs) (map g xs) = map (\<lambda>x. (f x, g x)) xs"
  by (induction xs) simp_all

lemma unit_square: "(a::real) \<noteq> 0 \<Longrightarrow> a / \<bar>a\<bar> * (a / \<bar>a\<bar>) = 1"
  by (simp add: field_simps) 

lemma scale_back: "(a::real) \<noteq> 0 \<Longrightarrow> a / \<bar>a\<bar> * py / n / \<bar>a\<bar> = py / (n * a)"
proof -
  assume a: "a \<noteq> 0"
  have "\<bar>a\<bar> * \<bar>a\<bar> = a * a" by simp
  then have "a / \<bar>a\<bar> * py / n / \<bar>a\<bar> = a * py / (n * (a * a))"
    by (simp add: field_simps)
  also have "\<dots> = py / (n * a)" using a by (simp add: field_simps)
  finally show ?thesis .
qed

lemma polyfit1_nonzero:
  assumes "px \<noteq> 0"
  shows "polyfit1 px py deg
         = Inr (map (\<lambda>j. py / (real (deg + 1) * px ^ (deg - j))) [0..<deg + 1])"
proof -
  let ?a = "\<lambda>j. px ^ (deg - j)"
  let ?js = "[0..<deg + 1]"
  have nz: "\<And>j. ?a j \<noteq> 0" using assms by simp
  have scale: "map (\<lambda>a. sqrt (a * a)) (map ?a ?js) = map (\<lambda>j. \<bar>?a j\<bar>) ?js"
    by (simp add: comp_def)
  have notin: "0 \<notin> set (map (\<lambda>j. \<bar>?a j\<bar>) ?js)"
    using nz by auto
  have lhs: "map (\<lambda>(a, s). a / s) (zip (map ?a ?js) (map (\<lambda>j. \<bar>?a j\<bar>) ?js))
        = map (\<lambda>j. ?a j / \<bar>?a j\<bar>) ?js"
    by (simp add: zip_map_same comp_def)
  have sq: "\<And>j. ?a j / \<bar>?a j\<bar> * (?a j / \<bar>?a j\<bar>) = 1"
    by (rule unit_square) (rule nz)
  have sb: "\<And>j. ?a j / \<bar>?a j\<bar> * py / real (deg + 1) / \<bar>?a j\<bar>
               = py / (real (deg + 1) * ?a j)"
    by (rule scale_back) (rule nz)
  have nrm: "sum_list (map (\<lambda>b. b * b) (map (\<lambda>j. ?a j / \<bar>?a j\<bar>) ?js)) = real (deg + 1)"
  proof -
    have "map (\<lambda>b. b * b) (map (\<lambda>j. ?a j / \<bar>?a j\<bar>) ?js) = map (\<lambda>j. 1) ?js"
      by (simp only: map_map comp_def sq)
    then have "sum_list (map (\<lambda>b. b * b) (map (\<lambda>j. ?a j / \<bar>?a j\<bar>) ?js))
        = sum_list (map (\<lambda>j. 1) ?js)"
      by (simp only:)
    also have "\<dots> = real (deg + 1)"
      by (simp add: sum_list_triv del: upt_Suc)
    finally show ?thesis .
  qed
  have fin: "map (\<lambda>(c, s). c / s)
        (zip (map (\<lambda>b. b * py / real (deg + 1)) (map (\<lambda>j. ?a j / \<bar>?a j\<bar>) ?js))
             (map (\<lambda>j. \<bar>?a j\<bar>) ?js))
        = map (\<lambda>j. py / (real (deg + 1) * ?a j)) ?js"
    by (simp only: map_map comp_def zip_map_same prod.case sb)
  show ?thesis
    unfolding polyfit1_def Let_def scale lhs nrm fin
    using notin by (simp del: upt_Suc)
qed

lemma polyfit1_interpolates:
  assumes "px \<noteq> 0"
  shows "\<exists>p. polyfit1 px py deg = Inr p \<and> length p = deg + 1 \<and> polyval p px = py"
proof -
  let ?p = "map (\<lambda>j. py / (real (deg + 1) * px ^ (deg - j))) [0..<deg + 1]"
  have len: "length ?p = deg + 1" by simp
  have "polyval ?p px = (\<Sum>i<deg + 1. ?p ! (deg + 1 - (i + 1)) * px ^ i)"
    using polyval_sum [of ?p px] by (simp only: len)
  also have "\<dots> = (\<Sum>i<deg + 1. py / real (deg + 1))"
  proof (intro sum.cong refl)
    fix i assume "i \<in> {..<deg + 1}"
    then have i: "i \<le> deg" by simp
    then have "deg + 1 - (i + 1) < deg + 1" by simp
    then have "?p ! (deg + 1 - (i + 1)) = py / (real (deg + 1) * px ^ (deg - (deg + 1 - (i + 1))))"
      by (simp only: nth_map_upt) simp
    moreover have "deg - (deg + 1 - (i + 1)) = i" using i by simp
    ultimately show "?p ! (deg + 1 - (i + 1)) * px ^ i = py / real (deg + 1)"
      using assms by simp
  qed
  also have "\<dots> = py" by simp
  finally have "polyval ?p px = py" .
  then show ?thesis
    using polyfit1_nonzero [OF assms, of py deg] len by blast
qed

lemma arctan2_zero: "arctan2 0 0 = 0"
  by (simp add: arctan2_def)

lemma upt4: "[0..<4] = [0, 1, 2, 3]"
  by (simp add: upt_rec)

lemma local_reference_lateral:
  assumes "poly_degree (cfg self) = 3"
  shows "local_reference self lateral_vehicle lateral_waypoint
         = Inr ([- (1 / 2000), - (1 / 200), - (1 / 20), - (1 / 2)], - (1 / 2), arctan (1 / 20))"
proof -
  have fit: "polyfit1 10 (- 2) 3 = Inr [- (1 / 2000), - (1 / 200), - (1 / 20), - (1 / 2)]"
    by (simp add: polyfit1_nonzero upt4)
  have car: "modified_transform_into_cars_coordinate_system (10, 2) 0 0 1 0 = (10, - 2)"
    by (simp add: modified_transform_into_cars_coordinate_system_def)
  show ?thesis
    unfolding local_reference_def Let_def
    by (simp add: lateral_vehicle_def lateral_waypoint_def arctan2_zero car assms fit
        bind_err_def py_index_def arctan_minus)
qed

subsection \<open>One tick\<close>

lemma success_message: "sublist ''success'' ''Optimization terminated successfully''"
  by code_simp

lemma failure_message: "\<not> sublist ''success'' ''Iteration limit reached''"
  by code_simp

lemma run_step_after_solver:
  assumes "local_reference self vt wp = Inr (poly, cte, epsi)"
    and "get_state0 self (get_speed ext) cte epsi (steer self) (throttle self) poly = Inr s0"
    and "minimize_cost ext (self\<lparr>state0 := s0\<rparr>) (bounds self) s0
           ([0, 0, 0, get_speed ext, cte, epsi] @ poly) = (self1, Inr r)"
  shows "run_step ext self vt wp =
     (if sublist ''success'' (message r) then
        bind_err (py_index (res_x r) (- int (steps_ahead (cfg self1)))) (\<lambda>st.
        bind_err (py_index (res_x r) (- 2 * int (steps_ahead (cfg self1)))) (\<lambda>th.
          Inr (self1, (Control_new ext)\<lparr>steering := st, ctl_throttle := th\<rparr>)))
      else Inr (self1\<lparr>logger := logger self1 @ [(Debug, ''Unsuccessful optimization'')]\<rparr>,
                Control_new ext))"
  using assms
  by (simp add: run_step_def Let_def bind_err_def)

lemma minimize_cost_fst:
  "fst (minimize_cost ext self bnds x0 init)
   = self\<lparr>constr_funcs := map (\<lambda>cf. cf\<lparr>cargs := Some init\<rparr>) (constr_funcs self)\<rparr>"
  by (simp add: minimize_cost_def Let_def)

lemma minimize_cost_keeps:
  assumes "minimize_cost ext self bnds x0 init = (self1, res)"
  shows "cfg self1 = cfg self" "steer self1 = steer self" "throttle self1 = throttle self"
    "logger self1 = logger self" "state0 self1 = state0 self" "bounds self1 = bounds self"
  using assms by (auto simp add: minimize_cost_def Let_def)

lemma get_state0_lateral:
  assumes "steps_ahead (cfg self) = 1" "length (state0 self) = 8"
    "steer self = None" "throttle self = None"
  shows "get_state0 self 5 (- (1 / 2)) (arctan (1 / 20)) (steer self) (throttle self) lateral_poly
         = Inr lateral_state0"
proof -
  have "length (state0 self) = 8 * steps_ahead (cfg self)" using assms by simp
  then show ?thesis
    using assms
    by (simp add: get_state0_result linspace_def polyval_def lateral_poly_def
        lateral_state0_def py_or0_def)
qed

lemma tick_solver_success:
  assumes "steps_ahead (cfg self) = 1" "poly_degree (cfg self) = 3"
    "length (state0 self) = 8" "steer self = None" "throttle self = None"
  shows "run_step solver_success self lateral_vehicle lateral_waypoint =
     Inr (self\<lparr>state0 := lateral_state0,
               constr_funcs := map (\<lambda>cf. cf\<lparr>cargs := Some lateral_init\<rparr>) (constr_funcs self)\<rparr>,
          \<lparr>steering = 3 / 10, ctl_throttle = 7 / 10\<rparr>)"
proof -
  let ?self1 = "self\<lparr>state0 := lateral_state0,
      constr_funcs := map (\<lambda>cf. cf\<lparr>cargs := Some lateral_init\<rparr>) (constr_funcs self)\<rparr>"
  let ?r = "\<lparr>message = ''Optimization terminated successfully'',
            res_x = [0, 0, 0, 5, 0, 0, 7 / 10, 3 / 10 :: real]\<rparr>"
  have lr: "local_reference self lateral_vehicle lateral_waypoint
      = Inr (lateral_poly, - (1 / 2), arctan (1 / 20))"
    using local_reference_lateral [OF assms(2)] by (simp add: lateral_poly_def)
  have sp: "get_speed solver_success = 5" by (simp add: solver_success_def)
  have gs: "get_state0 self (get_speed solver_success) (- (1 / 2)) (arctan (1 / 20))
      (steer self) (throttle self) lateral_poly = Inr lateral_state0"
    unfolding sp using assms by (intro get_state0_lateral) simp_all
  have mc: "minimize_cost solver_success (self\<lparr>state0 := lateral_state0\<rparr>) (bounds self)
      lateral_state0 ([0, 0, 0, get_speed solver_success, - (1 / 2), arctan (1 / 20)] @ lateral_poly)
      = (?self1, Inr ?r)"
    by (simp add: minimize_cost_def Let_def solver_success_def lateral_init_def)
  have N: "steps_ahead (cfg ?self1) = 1" using assms(1) by simp
  show ?thesis
    unfolding run_step_after_solver [OF lr gs mc] N
    using success_message
    by (simp add: bind_err_def py_index_def solver_success_def)
qed

lemma tick_solver_failure:
  assumes "steps_ahead (cfg self) = 1" "poly_degree (cfg self) = 3"
    "length (state0 self) = 8" "steer self = None" "throttle self = None"
  shows "run_step solver_failure self lateral_vehicle lateral_waypoint =
     Inr (self\<lparr>state0 := lateral_state0,
               constr_funcs := map (\<lambda>cf. cf\<lparr>cargs := Some lateral_init\<rparr>) (constr_funcs self),
               logger := logger self @ [(Debug, ''Unsuccessful optimization'')]\<rparr>,
          \<lparr>steering = 0, ctl_throttle = 0\<rparr>)"
proof -
  let ?self1 = "self\<lparr>state0 := lateral_state0,
      constr_funcs := map (\<lambda>cf. cf\<lparr>cargs := Some lateral_init\<rparr>) (constr_funcs self)\<rparr>"
  let ?r = "\<lparr>message = ''Iteration limit reached'', res_x = lateral_state0\<rparr>"
  have lr: "local_reference self lateral_vehicle lateral_waypoint
      = Inr (lateral_poly, - (1 / 2), arctan (1 / 20))"
    using local_reference_lateral [OF assms(2)] by (simp add: lateral_poly_def)
  have sp: "get_speed solver_failure = 5" by (simp add: solver_failure_def)
  have gs: "get_state0 self (get_speed solver_failure) (- (1 / 2)) (arctan (1 / 20))
      (steer self) (throttle self) lateral_poly = Inr lateral_state0"
    unfolding sp using assms by (intro get_state0_lateral) simp_all
  have mc: "minimize_cost solver_failure (self\<lparr>state0 := lateral_state0\<rparr>) (bounds self)
      lateral_state0 ([0, 0, 0, get_speed solver_failure, - (1 / 2), arctan (1 / 20)] @ lateral_poly)
      = (?self1, Inr ?r)"
    by (simp add: minimize_cost_def Let_def solver_failure_def lateral_init_def)
  show ?thesis
    unfolding run_step_after_solver [OF lr gs mc]
    using failure_message
    by (simp add: solver_failure_def)
qed

lemma first_tick_eq:
  "first_tick =
     Inr (controller1\<lparr>state0 := lateral_state0,
            constr_funcs := map (\<lambda>cf. cf\<lparr>cargs := Some lateral_init\<rparr>) (constr_funcs controller1)\<rparr>,
          \<lparr>steering = 3 / 10, ctl_throttle = 7 / 10\<rparr>)"
  unfolding first_tick_def
  by (rule tick_solver_success) (simp_all add: controller1_fields)

lemma first_tick_fields:
  "steps_ahead (cfg (fst (projr first_tick))) = 1"
  "poly_degree (cfg (fst (projr first_tick))) = 3"
  "length (state0 (fst (projr first_tick))) = 8"
  "steer (fst (projr first_tick)) = None"
  "throttle (fst (projr first_tick)) = None"
  by (simp_all add: first_tick_eq controller1_fields lateral_state0_def)

lemma controller1_tick_facts:
  "local_reference controller1 lateral_vehicle lateral_waypoint
     = Inr (lateral_poly, - (1 / 2), arctan (1 / 20))"
  "get_state0 controller1 (get_speed solver_success) (- (1 / 2)) (arctan (1 / 20))
     (steer controller1) (throttle controller1) lateral_poly = Inr lateral_state0"
  "get_state0 controller1 (get_speed solver_failure) (- (1 / 2)) (arctan (1 / 20))
     (steer controller1) (throttle controller1) lateral_poly = Inr lateral_state0"
  "minimize_cost solver_success (controller1\<lparr>state0 := lateral_state0\<rparr>) (bounds controller1)
     lateral_state0 ([0, 0, 0, get_speed solver_success, - (1 / 2), arctan (1 / 20)] @ lateral_poly)
     = (controller1_bound, Inr success_result)"
  "minimize_cost solver_failure (controller1\<lparr>state0 := lateral_state0\<rparr>) (bounds controller1)
     lateral_state0 ([0, 0, 0, get_speed solver_failure, - (1 / 2), arctan (1 / 20)] @ lateral_poly)
     = (controller1_bound, Inr failure_result)"
proof -
  show "local_reference controller1 lateral_vehicle lateral_waypoint
     = Inr (lateral_poly, - (1 / 2), arctan (1 / 20))"
    using local_reference_lateral [OF controller1_fields(2)] by (simp add: lateral_poly_def)
  have sp: "get_speed solver_success = 5" "get_speed solver_failure = 5"
    by (simp_all add: solver_success_def solver_failure_def)
  show "get_state0 controller1 (get_speed solver_success) (- (1 / 2)) (arctan (1 / 20))
     (steer controller1) (throttle controller1) lateral_poly = Inr lateral_state0"
    unfolding sp by (rule get_state0_lateral) (simp_all add: controller1_fields)
  show "get_state0 controller1 (get_speed solver_failure) (- (1 / 2)) (arctan (1 / 20))
     (steer controller1) (throttle controller1) lateral_poly = Inr lateral_state0"
    unfolding sp by (rule get_state0_lateral) (simp_all add: controller1_fields)
  show "minimize_cost solver_success (controller1\<lparr>state0 := lateral_state0\<rparr>) (bounds controller1)
     lateral_state0 ([0, 0, 0, get_speed solver_success, - (1 / 2), arctan (1 / 20)] @ lateral_poly)
     = (controller1_bound, Inr success_result)"
    by (simp add: minimize_cost_def Let_def solver_success_def lateral_init_def
        controller1_bound_def success_result_def)
  show "minimize_cost solver_failure (controller1\<lparr>state0 := lateral_state0\<rparr>) (bounds controller1)
     lateral_state0 ([0, 0, 0, get_speed solver_failure, - (1 / 2), arctan (1 / 20)] @ lateral_poly)
     = (controller1_bound, Inr failure_result)"
    by (simp add: minimize_cost_def Let_def solver_failure_def lateral_init_def
        controller1_bound_def failure_result_def)
qed

section \<open>Claims\<close>

subsection \<open>Equality constraints\<close>

text \<open>
  Claim C1. For every horizon length \<open>N \<ge> 1\<close>, the dictionary of equality constraints
  built at construction has one list of length \<open>N\<close> per state variable; the entry of
  state variable number \<open>k\<close> at horizon step \<open>t\<close> is an expression whose value, under
  every valuation of the symbols, is the one the specification gives (\<open>spec_constraint\<close>:
  the pin to the initial-state parameter at \<open>t = 0\<close>, the bicycle-model and error
  dynamics in lhs-minus-rhs form for \<open>t \<ge> 1\<close>, with \<open>curve\<close> the value of the local
  polynomial and \<open>\<psi>des\<close> the value of its derivative); and that expression is what the
  entry \<open>k * N + t\<close> of the \<open>6N\<close> constraint functions compiles, registered with type
  \<open>'eq'\<close>. The last conjunct says that \<open>polyder\<close> is indeed the derivative.
\<close>

theorem equality_constraints_built:
  assumes "1 \<le> steps_ahead c" and "k < 6" and "t < steps_ahead c"
  shows "\<exists>d cf cs e.
      build_eq_constr c = Inr d
    \<and> get_func_constraints_and_bounds c = Inr (cf, cs)
    \<and> dom d = set state_vars
    \<and> map_option length (d (state_vars ! k)) = Some (steps_ahead c)
    \<and> map_option (\<lambda>l. l ! t) (d (state_vars ! k)) = Some (Some e)
    \<and> (\<forall>\<rho>. eval \<rho> e = spec_constraint c \<rho> (state_vars ! k) t)
    \<and> length cs = 6 * steps_ahead c
    \<and> cs ! (k * steps_ahead c + t)
        = \<lparr>ctype = ''eq'',
           cfun = generate_fun e (vars (steps_ahead c)) init_syms
                    (poly_syms (poly_degree c + 1)),
           cargs = None\<rparr>
    \<and> (\<forall>p u. (polyval p has_real_derivative polyval (polyder p) u) (at u))"
proof -
  let ?N = "steps_ahead c"
  let ?s = "state_vars ! k"
  have N: "0 < ?N" using assms(1) by simp
  have "length state_vars = 6" by (simp add: state_vars_def)
  then have s: "?s \<in> set state_vars" using assms(2) by (intro nth_mem) simp
  have d: "full_dict c ?s = Some (map (\<lambda>t. Some (constr_expr c ?s t)) [0..<?N])"
    using s by (simp add: full_dict_def)
  have "build_eq_constr c = Inr (full_dict c)"
    by (rule build_eq_constr_full [OF N])
  moreover have "get_func_constraints_and_bounds c =
     Inr (generate_fun (cost_expr c) (vars ?N) init_syms (poly_syms (poly_degree c + 1)),
          map (\<lambda>(s, t). compiled c s t) (grid ?N))"
    by (rule get_func_constraints_and_bounds_ok [OF N])
  moreover have "dom (full_dict c) = set state_vars" by (rule full_dict_dom)
  moreover have "map_option length (full_dict c ?s) = Some ?N" using d by simp
  moreover have "map_option (\<lambda>l. l ! t) (full_dict c ?s) = Some (Some (constr_expr c ?s t))"
    using d assms(3) by simp
  moreover have "\<forall>\<rho>. eval \<rho> (constr_expr c ?s t) = spec_constraint c \<rho> ?s t"
    using s by (simp add: eval_constr_expr)
  moreover have "length (map (\<lambda>(s, t). compiled c s t) (grid ?N)) = 6 * ?N"
    by (simp add: length_grid)
  moreover have "map (\<lambda>(s, t). compiled c s t) (grid ?N) ! (k * ?N + t)
        = \<lparr>ctype = ''eq'',
           cfun = generate_fun (constr_expr c ?s t) (vars ?N) init_syms
                    (poly_syms (poly_degree c + 1)),
           cargs = None\<rparr>"
    using compiled_nth [OF assms(2,3)] by (simp add: compiled_def)
  moreover have "\<forall>p u. (polyval p has_real_derivative polyval (polyder p) u) (at u)"
    by (simp add: polyval_has_derivative)
  ultimately show ?thesis by blast
qed

theorem equality_constraints_built_witness:
  "1 \<le> steps_ahead (init_config 10 2 (1 / 10)) \<and> (4::nat) < 6
   \<and> 1 < steps_ahead (init_config 10 2 (1 / 10))
   \<and> (\<exists>d cf cs e.
      build_eq_constr (init_config 10 2 (1 / 10)) = Inr d
    \<and> get_func_constraints_and_bounds (init_config 10 2 (1 / 10)) = Inr (cf, cs)
    \<and> dom d = set state_vars
    \<and> map_option length (d (state_vars ! 4)) = Some (steps_ahead (init_config 10 2 (1 / 10)))
    \<and> map_option (\<lambda>l. l ! 1) (d (state_vars ! 4)) = Some (Some e)
    \<and> (\<forall>\<rho>. eval \<rho> e = spec_constraint (init_config 10 2 (1 / 10)) \<rho> (state_vars ! 4) 1)
    \<and> length cs = 6 * steps_ahead (init_config 10 2 (1 / 10))
    \<and> cs ! (4 * steps_ahead (init_config 10 2 (1 / 10)) + 1)
        = \<lparr>ctype = ''eq'',
           cfun = generate_fun e (vars (steps_ahead (init_config 10 2 (1 / 10)))) init_syms
                    (poly_syms (poly_degree (init_config 10 2 (1 / 10)) + 1)),
           cargs = None\<rparr>
    \<and> (\<forall>p u. (polyval p has_real_derivative polyval (polyder p) u) (at u)))"
proof -
  have h1: "1 \<le> steps_ahead (init_config 10 2 (1 / 10))" by (simp add: init_config_def)
  have h2: "(4::nat) < 6" by simp
  have h3: "1 < steps_ahead (init_config 10 2 (1 / 10))" by (simp add: init_config_def)
  show ?thesis
    using h1 h2 h3 equality_constraints_built [OF h1 h2 h3] by blast
qed

subsection \<open>Cost\<close>

text \<open>
  Claim C2. For every horizon length \<open>N \<ge> 1\<close>, the cost expression built at construction
  evaluates, under every valuation of the symbols, to the sum over \<open>t = 0..N-1\<close> of the
  weighted squares of cte, \<open>e\<psi>\<close>, the speed error and the two actuators, plus the sum
  over \<open>t = 0..N-2\<close> of the weighted squared differences of consecutive actuators
  (\<open>spec_cost\<close>); the weights are 100, 100, 0.4, 1, 0.1, and 50 for both smoothing
  terms.
\<close>

theorem cost_built:
  assumes "1 \<le> N"
  shows "\<exists>ctl. VehicleMPCController ts N mt ms d = Inr ctl
     \<and> cost_func ctl = generate_fun (cost_expr (cfg ctl)) (vars N) init_syms (poly_syms 4)
     \<and> (\<forall>\<rho>. eval \<rho> (cost_expr (cfg ctl)) = spec_cost (cfg ctl) \<rho>)
     \<and> steps_ahead (cfg ctl) = N \<and> target_speed (cfg ctl) = ts
     \<and> cte_coeff (cfg ctl) = 100 \<and> epsi_coeff (cfg ctl) = 100
     \<and> speed_coeff (cfg ctl) = 4 / 10 \<and> acc_coeff (cfg ctl) = 1
     \<and> steer_coeff (cfg ctl) = 1 / 10
     \<and> consec_acc_coeff (cfg ctl) = 50 \<and> consec_steer_coeff (cfg ctl) = 50"
proof -
  have N: "0 < N" using assms by simp
  show ?thesis
    unfolding VehicleMPCController_ok [OF N]
    by (simp add: eval_cost_expr) (simp add: init_config_def)
qed

theorem cost_built_witness:
  "(1::nat) \<le> 2 \<and> (\<exists>ctl. VehicleMPCController 10 2 1 1 (1 / 10) = Inr ctl
     \<and> cost_func ctl = generate_fun (cost_expr (cfg ctl)) (vars 2) init_syms (poly_syms 4)
     \<and> (\<forall>\<rho>. eval \<rho> (cost_expr (cfg ctl)) = spec_cost (cfg ctl) \<rho>)
     \<and> steps_ahead (cfg ctl) = 2 \<and> target_speed (cfg ctl) = 10
     \<and> cte_coeff (cfg ctl) = 100 \<and> epsi_coeff (cfg ctl) = 100
     \<and> speed_coeff (cfg ctl) = 4 / 10 \<and> acc_coeff (cfg ctl) = 1
     \<and> steer_coeff (cfg ctl) = 1 / 10
     \<and> consec_acc_coeff (cfg ctl) = 50 \<and> consec_steer_coeff (cfg ctl) = 50)"
proof -
  have h: "(1::nat) \<le> 2" by simp
  show ?thesis
    using h cost_built [OF h, of 10 1 1 "1 / 10"] by blast
qed

subsection \<open>Sizes and bounds\<close>

text \<open>
  Claim C3. For every horizon length \<open>N \<ge> 1\<close>, construction succeeds and yields exactly
  \<open>6N\<close> constraint entries, a decision vector (the symbols of \<open>vars_\<close>) and a warm-start
  buffer of length \<open>8N\<close>, and a bounds list of length \<open>8N\<close>: first \<open>6N\<close> unconstrained
  entries, then \<open>N\<close> entries \<open>(0, max_throttle)\<close>, then \<open>N\<close> entries
  \<open>(-max_steering, max_steering)\<close>.
\<close>

theorem construction_sizes:
  assumes "1 \<le> N"
  shows "\<exists>ctl. VehicleMPCController ts N mt ms d = Inr ctl
     \<and> length (constr_funcs ctl) = 6 * N
     \<and> length (vars N) = 8 * N
     \<and> length (state0 ctl) = 8 * N
     \<and> length (bounds ctl) = 8 * N
     \<and> take (6 * N) (bounds ctl) = replicate (6 * N) (None, None)
     \<and> take N (drop (6 * N) (bounds ctl)) = replicate N (Some 0, Some mt)
     \<and> drop (7 * N) (bounds ctl) = replicate N (Some (- ms), Some ms)"
proof -
  have N: "0 < N" using assms by simp
  show ?thesis
    unfolding VehicleMPCController_ok [OF N]
    by (simp add: length_grid length_vars)
qed

theorem construction_sizes_witness:
  "(1::nat) \<le> 3 \<and> (\<exists>ctl. VehicleMPCController 10 3 1 1 (1 / 10) = Inr ctl
     \<and> length (constr_funcs ctl) = 6 * 3
     \<and> length (vars 3) = 8 * 3
     \<and> length (state0 ctl) = 8 * 3
     \<and> length (bounds ctl) = 8 * 3
     \<and> take (6 * 3) (bounds ctl) = replicate (6 * 3) (None, None)
     \<and> take 3 (drop (6 * 3) (bounds ctl)) = replicate 3 (Some 0, Some 1)
     \<and> drop (7 * 3) (bounds ctl) = replicate 3 (Some (- 1), Some 1))"
proof
  show "(1::nat) \<le> 3" by simp
  show "\<exists>ctl. VehicleMPCController 10 3 1 1 (1 / 10) = Inr ctl
     \<and> length (constr_funcs ctl) = 6 * 3
     \<and> length (vars 3) = 8 * 3
     \<and> length (state0 ctl) = 8 * 3
     \<and> length (bounds ctl) = 8 * 3
     \<and> take (6 * 3) (bounds ctl) = replicate (6 * 3) (None, None)
     \<and> take 3 (drop (6 * 3) (bounds ctl)) = replicate 3 (Some 0, Some 1)
     \<and> drop (7 * 3) (bounds ctl) = replicate 3 (Some (- 1), Some 1)"
    by (rule construction_sizes) simp
qed

subsection \<open>Coordinates of the waypoint in the car frame\<close>

text \<open>
  Claim C4, amended. The local coordinates of the waypoint are the waypoint translated by
  minus the vehicle position and rotated by \<open>-\<psi>\<close>, with the lateral axis reversed:
  \<open>local_x = cos \<psi> * (wx - x) + sin \<psi> * (wy - y)\<close> and
  \<open>local_y = sin \<psi> * (wx - x) - cos \<psi> * (wy - y)\<close>, the negative of the rotated lateral
  coordinate (a rotation followed by a reflection, not a pure rotation). Each tick fits
  the polynomial to this point, with \<open>\<psi> = arctan2(pitch, roll)\<close>.
\<close>

theorem car_frame_transform:
  "modified_transform_into_cars_coordinate_system (wx, wy) x y (cos psi) (sin psi)
     = (cos psi * (wx - x) + sin psi * (wy - y), sin psi * (wx - x) - cos psi * (wy - y))
   \<and> snd (modified_transform_into_cars_coordinate_system (wx, wy) x y (cos psi) (sin psi))
     = - (- sin psi * (wx - x) + cos psi * (wy - y))
   \<and> local_reference self
        \<lparr>location = \<lparr>loc_x = x, loc_y = y\<rparr>, rotation = \<lparr>pitch = p, roll = r\<rparr>\<rparr>
        \<lparr>location = \<lparr>loc_x = wx, loc_y = wy\<rparr>, rotation = wrot\<rparr>
     = bind_err
         (polyfit1 (cos (arctan2 p r) * (wx - x) + sin (arctan2 p r) * (wy - y))
                   (sin (arctan2 p r) * (wx - x) - cos (arctan2 p r) * (wy - y))
                   (poly_degree (cfg self)))
         (\<lambda>poly. bind_err (py_index poly (- 1)) (\<lambda>cte.
                  bind_err (py_index poly (- 2)) (\<lambda>p1. Inr (poly, cte, - arctan p1))))"
  by (simp add: modified_transform_into_cars_coordinate_system_def local_reference_def Let_def)

text \<open>
  Claim C4 as stated fails: for the vehicle at the origin with heading 0 and the waypoint
  at \<open>(10, 2)\<close> the code returns the lateral coordinate \<open>-2\<close>, the claimed rotation
  gives \<open>2\<close>.
\<close>

theorem car_frame_rotation_counterexample:
  "snd (modified_transform_into_cars_coordinate_system (10, 2) 0 0 (cos 0) (sin 0))
     \<noteq> - sin 0 * (10 - 0) + cos 0 * (2 - 0)
   \<and> snd (modified_transform_into_cars_coordinate_system (10, 2) 0 0 (cos 0) (sin 0)) = - 2
   \<and> - sin 0 * (10 - 0) + cos 0 * (2 - 0) = (2::real)"
  by (simp add: modified_transform_into_cars_coordinate_system_def)

subsection \<open>The lateral-offset scenario\<close>

text \<open>
  Claim C5, amended. In the lateral-offset scenario (vehicle at the origin, heading 0,
  next waypoint at \<open>(10, 2)\<close>) the transformed local point is \<open>(10, -2)\<close> and the
  polynomial fitted to it has the constant term \<open>-1/2\<close>, so the derived cross-track
  error is \<open>-1/2\<close>, negative; the heading error is \<open>arctan (1/20)\<close>.
\<close>

theorem lateral_offset_reference:
  assumes "VehicleMPCController ts N mt ms d = Inr self"
  shows "modified_transform_into_cars_coordinate_system (10, 2) 0 0 (cos 0) (sin 0) = (10, - 2)
     \<and> local_reference self lateral_vehicle lateral_waypoint
         = Inr ([- (1 / 2000), - (1 / 200), - (1 / 20), - (1 / 2)], - (1 / 2), arctan (1 / 20))"
  using local_reference_lateral [OF constructed_fields(2) [OF assms]]
  by (simp add: modified_transform_into_cars_coordinate_system_def)

theorem lateral_offset_reference_witness:
  "VehicleMPCController 10 1 1 1 (1 / 10) = Inr controller1
   \<and> modified_transform_into_cars_coordinate_system (10, 2) 0 0 (cos 0) (sin 0) = (10, - 2)
   \<and> local_reference controller1 lateral_vehicle lateral_waypoint
         = Inr ([- (1 / 2000), - (1 / 200), - (1 / 20), - (1 / 2)], - (1 / 2), arctan (1 / 20))"
proof -
  have "0 < (1::nat)" by simp
  then have h: "VehicleMPCController 10 1 1 1 (1 / 10) = Inr controller1"
    unfolding controller1_def by (simp only: VehicleMPCController_ok sum.sel)
  show ?thesis
    using h lateral_offset_reference [OF h] by blast
qed

text \<open>
  Claim C5 as stated fails: in that scenario neither the constant term of the fitted
  polynomial nor the derived cross-track error is positive.
\<close>

theorem lateral_offset_positive_counterexample:
  "\<not> isl (local_reference controller1 lateral_vehicle lateral_waypoint)
   \<and> \<not> 0 < last (fst (projr (local_reference controller1 lateral_vehicle lateral_waypoint)))
   \<and> \<not> 0 < fst (snd (projr (local_reference controller1 lateral_vehicle lateral_waypoint)))"
  by (simp add: local_reference_lateral controller1_fields)

subsection \<open>The command on a successful solve\<close>

text \<open>
  Claim C6. On a successful solve with a solution vector of length \<open>8N\<close>, \<open>N \<ge> 1\<close>,
  \<open>run_step\<close> returns the command whose steering is the entry \<open>7N\<close> of the solution,
  the position of \<open>\<delta>[0]\<close> in the layout, and whose throttle is the entry \<open>6N\<close>, the
  position of \<open>a[0]\<close>.
\<close>

theorem command_from_solution:
  assumes "local_reference self vt wp = Inr (poly, cte, epsi)"
    and "get_state0 self (get_speed ext) cte epsi (steer self) (throttle self) poly = Inr s0"
    and "minimize_cost ext (self\<lparr>state0 := s0\<rparr>) (bounds self) s0
           ([0, 0, 0, get_speed ext, cte, epsi] @ poly) = (self1, Inr r)"
    and "sublist ''success'' (message r)"
    and "1 \<le> steps_ahead (cfg self)"
    and "length (res_x r) = 8 * steps_ahead (cfg self)"
  shows "run_step ext self vt wp
       = Inr (self1, (Control_new ext)\<lparr>steering := res_x r ! (7 * steps_ahead (cfg self)),
                                       ctl_throttle := res_x r ! (6 * steps_ahead (cfg self))\<rparr>)
     \<and> vars (steps_ahead (cfg self)) ! (7 * steps_ahead (cfg self)) = Var Ser_delta 0
     \<and> vars (steps_ahead (cfg self)) ! (6 * steps_ahead (cfg self)) = Var Ser_a 0"
proof -
  let ?N = "steps_ahead (cfg self)"
  have c: "cfg self1 = cfg self"
    using minimize_cost_keeps(1) [OF assms(3)] by simp
  have N: "0 < ?N" using assms(5) by simp
  have i1: "py_index (res_x r) (- int ?N) = Inr (res_x r ! (7 * ?N))"
  proof -
    have "nat (int (8 * ?N) + - int ?N) = 7 * ?N" by simp
    then show ?thesis using N assms(6) by (simp add: py_index_def)
  qed
  have i2: "py_index (res_x r) (- 2 * int ?N) = Inr (res_x r ! (6 * ?N))"
  proof -
    have "nat (int (8 * ?N) + - 2 * int ?N) = 6 * ?N" by simp
    then show ?thesis using N assms(6) by (simp add: py_index_def)
  qed
  have "run_step ext self vt wp
       = Inr (self1, (Control_new ext)\<lparr>steering := res_x r ! (7 * ?N),
                                       ctl_throttle := res_x r ! (6 * ?N)\<rparr>)"
    unfolding run_step_after_solver [OF assms(1,2,3)] c
    using assms(4) i1 i2 by (simp add: bind_err_def)
  moreover have "vars ?N ! (7 * ?N) = Var Ser_delta 0"
    using vars_nth [of 0 ?N Ser_delta] N by simp
  moreover have "vars ?N ! (6 * ?N) = Var Ser_a 0"
    using vars_nth [of 0 ?N Ser_a] N by simp
  ultimately show ?thesis by simp
qed

theorem command_from_solution_witness:
  "local_reference controller1 lateral_vehicle lateral_waypoint
     = Inr (lateral_poly, - (1 / 2), arctan (1 / 20))
   \<and> get_state0 controller1 (get_speed solver_success) (- (1 / 2)) (arctan (1 / 20))
       (steer controller1) (throttle controller1) lateral_poly = Inr lateral_state0
   \<and> minimize_cost solver_success (controller1\<lparr>state0 := lateral_state0\<rparr>) (bounds controller1)
       lateral_state0 ([0, 0, 0, get_speed solver_success, - (1 / 2), arctan (1 / 20)] @ lateral_poly)
       = (controller1_bound, Inr success_result)
   \<and> sublist ''success'' (message success_result)
   \<and> 1 \<le> steps_ahead (cfg controller1)
   \<and> length (res_x success_result) = 8 * steps_ahead (cfg controller1)
   \<and> run_step solver_success controller1 lateral_vehicle lateral_waypoint
       = Inr (controller1_bound,
              (Control_new solver_success)
                \<lparr>steering := res_x success_result ! (7 * steps_ahead (cfg controller1)),
                 ctl_throttle := res_x success_result ! (6 * steps_ahead (cfg controller1))\<rparr>)
   \<and> vars (steps_ahead (cfg controller1)) ! (7 * steps_ahead (cfg controller1)) = Var Ser_delta 0
   \<and> vars (steps_ahead (cfg controller1)) ! (6 * steps_ahead (cfg controller1)) = Var Ser_a 0"
proof -
  note h1 = controller1_tick_facts(1)
  note h2 = controller1_tick_facts(2)
  note h3 = controller1_tick_facts(4)
  have h4: "sublist ''success'' (message success_result)"
    using success_message by (simp add: success_result_def)
  have h5: "1 \<le> steps_ahead (cfg controller1)" by (simp add: controller1_fields)
  have h6: "length (res_x success_result) = 8 * steps_ahead (cfg controller1)"
    by (simp add: controller1_fields success_result_def)
  show ?thesis
    using h1 h2 h3 h4 h5 h6 command_from_solution [OF h1 h2 h3 h4 h5 h6] by blast
qed

subsection \<open>The command on a failed solve\<close>

text \<open>
  Claim C7, amended. Whenever the solver reports non-success, \<open>run_step\<close> returns
  without raising; the returned command is the default-constructed \<open>Control()\<close>, with no
  value taken from the solver result; the event is logged at debug level; and the stored
  previous actuators of the controller are left as they were.
\<close>

theorem failed_solve_default_command:
  assumes "local_reference self vt wp = Inr (poly, cte, epsi)"
    and "get_state0 self (get_speed ext) cte epsi (steer self) (throttle self) poly = Inr s0"
    and "minimize_cost ext (self\<lparr>state0 := s0\<rparr>) (bounds self) s0
           ([0, 0, 0, get_speed ext, cte, epsi] @ poly) = (self1, Inr r)"
    and "\<not> sublist ''success'' (message r)"
  shows "run_step ext self vt wp
       = Inr (self1\<lparr>logger := logger self @ [(Debug, ''Unsuccessful optimization'')]\<rparr>,
              Control_new ext)
     \<and> steer self1 = steer self \<and> throttle self1 = throttle self"
proof -
  have k: "logger self1 = logger self" "steer self1 = steer self" "throttle self1 = throttle self"
    using minimize_cost_keeps [OF assms(3)] by simp_all
  show ?thesis
    unfolding run_step_after_solver [OF assms(1,2,3)]
    using assms(4) k by simp
qed

theorem failed_solve_default_command_witness:
  "local_reference controller1 lateral_vehicle lateral_waypoint
     = Inr (lateral_poly, - (1 / 2), arctan (1 / 20))
   \<and> get_state0 controller1 (get_speed solver_failure) (- (1 / 2)) (arctan (1 / 20))
       (steer controller1) (throttle controller1) lateral_poly = Inr lateral_state0
   \<and> minimize_cost solver_failure (controller1\<lparr>state0 := lateral_state0\<rparr>) (bounds controller1)
       lateral_state0 ([0, 0, 0, get_speed solver_failure, - (1 / 2), arctan (1 / 20)] @ lateral_poly)
       = (controller1_bound, Inr failure_result)
   \<and> \<not> sublist ''success'' (message failure_result)
   \<and> run_step solver_failure controller1 lateral_vehicle lateral_waypoint
       = Inr (controller1_bound
                \<lparr>logger := logger controller1 @ [(Debug, ''Unsuccessful optimization'')]\<rparr>,
              Control_new solver_failure)
   \<and> steer controller1_bound = steer controller1
   \<and> throttle controller1_bound = throttle controller1"
proof -
  note h1 = controller1_tick_facts(1)
  note h2 = controller1_tick_facts(3)
  note h3 = controller1_tick_facts(5)
  have h4: "\<not> sublist ''success'' (message failure_result)"
    using failure_message by (simp add: failure_result_def)
  show ?thesis
    using h1 h2 h3 h4 failed_solve_default_command [OF h1 h2 h3 h4] by blast
qed

text \<open>
  Claim C7 as stated fails on the part "the prior command is retained": after a tick that
  returned steering \<open>3/10\<close> and throttle \<open>7/10\<close>, a tick on which the solver reports
  non-success returns the default-constructed command (here steering 0, throttle 0).
\<close>

theorem failed_solve_retains_counterexample:
  "first_tick = Inr (fst (projr first_tick), \<lparr>steering = 3 / 10, ctl_throttle = 7 / 10\<rparr>)
   \<and> \<not> isl (run_step solver_failure (fst (projr first_tick)) lateral_vehicle lateral_waypoint)
   \<and> snd (projr (run_step solver_failure (fst (projr first_tick)) lateral_vehicle lateral_waypoint))
       = \<lparr>steering = 0, ctl_throttle = 0\<rparr>"
proof -
  have "run_step solver_failure (fst (projr first_tick)) lateral_vehicle lateral_waypoint =
     Inr ((fst (projr first_tick))\<lparr>state0 := lateral_state0,
               constr_funcs := map (\<lambda>cf. cf\<lparr>cargs := Some lateral_init\<rparr>)
                                   (constr_funcs (fst (projr first_tick))),
               logger := logger (fst (projr first_tick))
                         @ [(Debug, ''Unsuccessful optimization'')]\<rparr>,
          \<lparr>steering = 0, ctl_throttle = 0\<rparr>)"
    by (rule tick_solver_failure) (rule first_tick_fields)+
  moreover have "first_tick
      = Inr (fst (projr first_tick), \<lparr>steering = 3 / 10, ctl_throttle = 7 / 10\<rparr>)"
    by (simp add: first_tick_eq)
  ultimately show ?thesis by simp
qed

subsection \<open>Previous actuators across ticks\<close>

text \<open>
  Claim C8 at the failing input. The first tick succeeds and returns steering \<open>3/10\<close>
  and throttle \<open>7/10\<close>, yet the controller still holds no previous actuators, and the
  warm start of the second tick has 0 in both actuator series (its last two entries, the
  horizon being 1).
\<close>

theorem previous_command_not_carried:
  "first_tick = Inr (fst (projr first_tick), \<lparr>steering = 3 / 10, ctl_throttle = 7 / 10\<rparr>)
   \<and> steer (fst (projr first_tick)) = None
   \<and> throttle (fst (projr first_tick)) = None
   \<and> \<not> isl (run_step solver_success (fst (projr first_tick)) lateral_vehicle lateral_waypoint)
   \<and> state0 (fst (projr
        (run_step solver_success (fst (projr first_tick)) lateral_vehicle lateral_waypoint)))
       = [0, - (1 / 2), 0, 5, - (1 / 2), arctan (1 / 20), 0, 0]"
proof -
  have "run_step solver_success (fst (projr first_tick)) lateral_vehicle lateral_waypoint =
     Inr ((fst (projr first_tick))\<lparr>state0 := lateral_state0,
               constr_funcs := map (\<lambda>cf. cf\<lparr>cargs := Some lateral_init\<rparr>)
                                   (constr_funcs (fst (projr first_tick)))\<rparr>,
          \<lparr>steering = 3 / 10, ctl_throttle = 7 / 10\<rparr>)"
    by (rule tick_solver_success) (rule first_tick_fields)+
  moreover have "first_tick
      = Inr (fst (projr first_tick), \<lparr>steering = 3 / 10, ctl_throttle = 7 / 10\<rparr>)"
    by (simp add: first_tick_eq)
  ultimately show ?thesis
    using first_tick_fields(4,5) by (simp add: lateral_state0_def)
qed

subsection \<open>Anchoring of the first horizon step\<close>

text \<open>
  Claim C9, amended. For every horizon length \<open>N \<ge> 1\<close> and all initial-state
  parameters, the six constraint evaluators at \<open>t = 0\<close> all return zero whenever the
  first entry of each of the six state series of the decision vector, at the indices
  \<open>0, N, 2N, 3N, 4N, 5N\<close>, equals its initial-state parameter.
\<close>

theorem anchoring:
  assumes "1 \<le> N" and "length z = 8 * N" and "length poly = 4"
    and "z ! 0 = x_init" and "z ! N = y_init" and "z ! (2 * N) = psi_init"
    and "z ! (3 * N) = v_init" and "z ! (4 * N) = cte_init" and "z ! (5 * N) = epsi_init"
  shows "\<exists>ctl. VehicleMPCController ts N mt ms d = Inr ctl
     \<and> map (\<lambda>k. cfun (constr_funcs ctl ! (k * N)) z
                  ([x_init, y_init, psi_init, v_init, cte_init, epsi_init] @ poly))
           [0..<6]
         = replicate 6 (Inr 0)"
proof -
  let ?c = "init_config ts N d"
  let ?as = "[x_init, y_init, psi_init, v_init, cte_init, epsi_init] @ poly"
  have N: "0 < N" using assms(1) by simp
  have sa: "steps_ahead ?c = N" "poly_degree ?c = 3" by (simp_all add: init_config_def)
  let ?cs = "map (\<lambda>(s, t). compiled ?c s t) (grid N)"
  have len: "length state_vars = 6" by (simp add: state_vars_def)
  have ev: "cfun (?cs ! (k * N)) z ?as
      = Inr (z ! (series_pos (state_vars ! k) * N) - ?as ! init_pos (state_vars ! k))"
    if "k < 6" for k
  proof -
    have "state_vars ! k \<in> set state_vars" using that len by (intro nth_mem) simp
    then have "cfun (compiled ?c (state_vars ! k) 0) z ?as
        = Inr (z ! (series_pos (state_vars ! k) * N) - ?as ! init_pos (state_vars ! k))"
      using cfun_compiled_pin [of ?c "state_vars ! k" z ?as] N assms(2,3) sa by simp
    moreover have "?cs ! (k * N) = compiled ?c (state_vars ! k) 0"
      using compiled_nth [of k 0 N ?c] N that by simp
    ultimately show ?thesis by simp
  qed
  have e0: "cfun (?cs ! (0 * N)) z ?as = Inr 0"
    using ev [of 0] assms(4) by (simp add: state_vars_def)
  have e1: "cfun (?cs ! (1 * N)) z ?as = Inr 0"
    using ev [of 1] assms(5) by (simp add: state_vars_def)
  have e2: "cfun (?cs ! (2 * N)) z ?as = Inr 0"
    using ev [of 2] assms(7) by (simp add: state_vars_def)
  have e3: "cfun (?cs ! (3 * N)) z ?as = Inr 0"
    using ev [of 3] assms(6) by (simp add: state_vars_def)
  have e4: "cfun (?cs ! (4 * N)) z ?as = Inr 0"
    using ev [of 4] assms(8) by (simp add: state_vars_def)
  have e5: "cfun (?cs ! (5 * N)) z ?as = Inr 0"
    using ev [of 5] assms(9) by (simp add: state_vars_def)
  have six: "[0..<6] = [0, 1, 2, 3, 4, 5]" by (simp add: upt_rec)
  have rep: "replicate 6 (Inr 0 :: error + real) = [Inr 0, Inr 0, Inr 0, Inr 0, Inr 0, Inr 0]"
    by (simp add: numeral_eq_Suc)
  have "map (\<lambda>k. cfun (?cs ! (k * N)) z ?as) [0..<6] = replicate 6 (Inr 0)"
    unfolding six rep using e0 e1 e2 e3 e4 e5 by simp
  then show ?thesis
    unfolding VehicleMPCController_ok [OF N] by simp
qed

theorem anchoring_witness:
  "(1::nat) \<le> 2 \<and> length [1, 0, 2, 0, 3, 0, 4, 0, 5, 0, 6, 0, 0, 0, 0, 0 :: real] = 8 * 2
   \<and> length [0, 0, 0, 0 :: real] = 4
   \<and> [1, 0, 2, 0, 3, 0, 4, 0, 5, 0, 6, 0, 0, 0, 0, 0 :: real] ! 0 = 1
   \<and> [1, 0, 2, 0, 3, 0, 4, 0, 5, 0, 6, 0, 0, 0, 0, 0 :: real] ! 2 = 2
   \<and> [1, 0, 2, 0, 3, 0, 4, 0, 5, 0, 6, 0, 0, 0, 0, 0 :: real] ! (2 * 2) = 3
   \<and> [1, 0, 2, 0, 3, 0, 4, 0, 5, 0, 6, 0, 0, 0, 0, 0 :: real] ! (3 * 2) = 4
   \<and> [1, 0, 2, 0, 3, 0, 4, 0, 5, 0, 6, 0, 0, 0, 0, 0 :: real] ! (4 * 2) = 5
   \<and> [1, 0, 2, 0, 3, 0, 4, 0, 5, 0, 6, 0, 0, 0, 0, 0 :: real] ! (5 * 2) = 6
   \<and> (\<exists>ctl. VehicleMPCController 10 2 1 1 (1 / 10) = Inr ctl
     \<and> map (\<lambda>k. cfun (constr_funcs ctl ! (k * 2))
                  [1, 0, 2, 0, 3, 0, 4, 0, 5, 0, 6, 0, 0, 0, 0, 0]
                  ([1, 2, 3, 4, 5, 6] @ [0, 0, 0, 0]))
           [0..<6]
         = replicate 6 (Inr 0))"
proof -
  let ?z = "[1, 0, 2, 0, 3, 0, 4, 0, 5, 0, 6, 0, 0, 0, 0, 0 :: real]"
  have h1: "(1::nat) \<le> 2" by simp
  have h2: "length ?z = 8 * 2" by simp
  have h3: "length [0, 0, 0, 0 :: real] = 4" by simp
  have h4: "?z ! 0 = 1" by simp
  have h5: "?z ! 2 = 2" by simp
  have h6: "?z ! (2 * 2) = 3" by simp
  have h7: "?z ! (3 * 2) = 4" by simp
  have h8: "?z ! (4 * 2) = 5" by simp
  have h9: "?z ! (5 * 2) = 6" by simp
  show ?thesis
    using h1 h2 h3 h4 h5 h6 h7 h8 h9
      anchoring [OF h1 h2 h3 h4 h5 h6 h7 h8 h9, of 10 1 1 "1 / 10"]
    by blast
qed

text \<open>
  Claim C9 as stated fails for \<open>N = 2\<close>: the first six entries of the decision vector
  are then \<open>x[0], x[1], y[0], y[1], \<psi>[0], \<psi>[1]\<close>; with them equal to the six
  parameters \<open>1, ..., 6\<close> the evaluator of the \<open>y\<close> constraint at \<open>t = 0\<close> returns
  \<open>y[0] - y_init = 3 - 2 = 1\<close>.
\<close>

theorem anchoring_first_six_counterexample:
  "\<not> isl (VehicleMPCController 10 2 1 1 (1 / 10))
   \<and> take 6 [1, 2, 3, 4, 5, 6, 0, 0, 0, 0, 0, 0, 0, 0, 0, 0 :: real] = [1, 2, 3, 4, 5, 6]
   \<and> cfun (constr_funcs (projr (VehicleMPCController 10 2 1 1 (1 / 10))) ! (1 * 2))
        [1, 2, 3, 4, 5, 6, 0, 0, 0, 0, 0, 0, 0, 0, 0, 0]
        ([1, 2, 3, 4, 5, 6] @ [0, 0, 0, 0])
      = Inr 1"
proof -
  let ?c = "init_config 10 2 (1 / 10)"
  let ?z = "[1, 2, 3, 4, 5, 6, 0, 0, 0, 0, 0, 0, 0, 0, 0, 0 :: real]"
  let ?as = "[1, 2, 3, 4, 5, 6] @ [0, 0, 0, 0 :: real]"
  have sa: "steps_ahead ?c = 2" "poly_degree ?c = 3" by (simp_all add: init_config_def)
  have "cfun (compiled ?c Ser_y 0) ?z ?as
      = Inr (?z ! (series_pos Ser_y * steps_ahead ?c) - ?as ! init_pos Ser_y)"
    by (rule cfun_compiled_pin) (simp_all add: sa state_vars_def)
  then have y: "cfun (compiled ?c Ser_y 0) ?z ?as = Inr 1" by (simp add: sa)
  have "map (\<lambda>(s, t). compiled ?c s t) (grid 2) ! (1 * 2 + 0) = compiled ?c (state_vars ! 1) 0"
    by (rule compiled_nth) simp_all
  then have nth: "map (\<lambda>(s, t). compiled ?c s t) (grid 2) ! (1 * 2) = compiled ?c Ser_y 0"
    by (simp add: state_vars_def)
  have ok: "0 < (2::nat)" by simp
  show ?thesis
    unfolding VehicleMPCController_ok [OF ok]
    using y nth by simp
qed

subsection \<open>The warm-start buffer\<close>

text \<open>
  Claim C10. \<open>get_state0\<close> writes every one of the \<open>8N\<close> entries of the warm-start
  buffer: whatever two buffers of length \<open>8N\<close> it starts from, with the same arguments
  it returns the same vector, which is determined by the arguments alone.
\<close>

theorem warm_start_overwritten:
  assumes "length b1 = 8 * steps_ahead (cfg self)" and "length b2 = 8 * steps_ahead (cfg self)"
  shows "get_state0 (self\<lparr>state0 := b1\<rparr>) v cte epsi a delta poly
       = get_state0 (self\<lparr>state0 := b2\<rparr>) v cte epsi a delta poly
     \<and> get_state0 (self\<lparr>state0 := b1\<rparr>) v cte epsi a delta poly
       = Inr (linspace 0 1 (steps_ahead (cfg self))
              @ map (polyval poly) (linspace 0 1 (steps_ahead (cfg self)))
              @ replicate (steps_ahead (cfg self)) 0
              @ replicate (steps_ahead (cfg self)) v
              @ replicate (steps_ahead (cfg self)) cte
              @ replicate (steps_ahead (cfg self)) epsi
              @ replicate (steps_ahead (cfg self)) (py_or0 a)
              @ replicate (steps_ahead (cfg self)) (py_or0 delta))"
  using get_state0_result [of "self\<lparr>state0 := b1\<rparr>" v cte epsi a delta poly]
    get_state0_result [of "self\<lparr>state0 := b2\<rparr>" v cte epsi a delta poly] assms
  by simp

theorem warm_start_overwritten_witness:
  "length [1, 1, 1, 1, 1, 1, 1, 1 :: real] = 8 * steps_ahead (cfg controller1)
   \<and> length [2, 2, 2, 2, 2, 2, 2, 2 :: real] = 8 * steps_ahead (cfg controller1)
   \<and> get_state0 (controller1\<lparr>state0 := [1, 1, 1, 1, 1, 1, 1, 1]\<rparr>) 5 (- (1 / 2)) 0
        (Some (3 / 10)) None lateral_poly
       = get_state0 (controller1\<lparr>state0 := [2, 2, 2, 2, 2, 2, 2, 2]\<rparr>) 5 (- (1 / 2)) 0
        (Some (3 / 10)) None lateral_poly
   \<and> get_state0 (controller1\<lparr>state0 := [1, 1, 1, 1, 1, 1, 1, 1]\<rparr>) 5 (- (1 / 2)) 0
        (Some (3 / 10)) None lateral_poly
       = Inr (linspace 0 1 (steps_ahead (cfg controller1))
              @ map (polyval lateral_poly) (linspace 0 1 (steps_ahead (cfg controller1)))
              @ replicate (steps_ahead (cfg controller1)) 0
              @ replicate (steps_ahead (cfg controller1)) 5
              @ replicate (steps_ahead (cfg controller1)) (- (1 / 2))
              @ replicate (steps_ahead (cfg controller1)) 0
              @ replicate (steps_ahead (cfg controller1)) (py_or0 (Some (3 / 10)))
              @ replicate (steps_ahead (cfg controller1)) (py_or0 None))"
proof -
  have h1: "length [1, 1, 1, 1, 1, 1, 1, 1 :: real] = 8 * steps_ahead (cfg controller1)"
    by (simp add: controller1_fields)
  have h2: "length [2, 2, 2, 2, 2, 2, 2, 2 :: real] = 8 * steps_ahead (cfg controller1)"
    by (simp add: controller1_fields)
  show ?thesis
    using h1 h2 warm_start_overwritten [OF h1 h2] by blast
qed

end
